theory Spec2Isabelle
  imports Complex_Main "HOL-Library.Sublist"
begin

section \<open>JavaScript strings\<close>

text \<open>
  A JavaScript string is modelled as a \<open>string\<close>; each \<open>char\<close> stands for one code unit
  below 256. The built-ins the pipeline calls are written out: truthiness of an optional
  string (\<open>undefined\<close>, \<open>null\<close> and \<open>""\<close> are falsy), \<open>trim\<close>, \<open>indexOf\<close>, \<open>join\<close>,
  the rendering of a number in a template literal, and \<open>String.prototype.replace\<close> with a
  string pattern and a string replacement.
\<close>

definition truthy :: "string option \<Rightarrow> bool" where
  "truthy v = (case v of None \<Rightarrow> False | Some s \<Rightarrow> s \<noteq> [])"

text \<open>\<open>v || d\<close> on an optional string.\<close>

definition or_default :: "string option \<Rightarrow> string \<Rightarrow> string" where
  "or_default v d = (case v of None \<Rightarrow> d | Some s \<Rightarrow> if s = [] then d else s)"

text \<open>
  The white space and line terminators of ECMAScript that lie below 256: TAB, LF, VT, FF,
  CR, SPACE and NBSP.
\<close>

definition is_whitespace :: "char \<Rightarrow> bool" where
  "is_whitespace c \<longleftrightarrow>
     c \<in> set [CHR 0x09, CHR 0x0A, CHR 0x0B, CHR 0x0C, CHR 0x0D, CHR 0x20, CHR 0xA0]"

definition trim :: "string \<Rightarrow> string" where
  "trim s = rev (dropWhile is_whitespace (rev (dropWhile is_whitespace s)))"

text \<open>\<open>s.indexOf(pat)\<close>: the position of the leftmost occurrence; \<open>None\<close> stands for -1.\<close>

primrec indexOf :: "string \<Rightarrow> string \<Rightarrow> nat option" where
  "indexOf [] pat = (if pat = [] then Some 0 else None)"
| "indexOf (c # cs) pat =
     (if prefix pat (c # cs) then Some 0 else map_option Suc (indexOf cs pat))"

text \<open>
  GetSubstitution of ECMAScript for a string pattern (no captures): in the replacement
  text \<open>$$\<close> stands for a dollar sign, \<open>$&\<close> for the matched text, dollar-backquote for the
  text before the match and dollar-quote for the text after it; any other dollar sign is
  literal.
\<close>

fun getSubstitution :: "string \<Rightarrow> string \<Rightarrow> string \<Rightarrow> string \<Rightarrow> string" where
  "getSubstitution matched preceding following [] = []"
| "getSubstitution matched preceding following [c] = [c]"
| "getSubstitution matched preceding following (c # d # ds) =
     (if c = CHR ''$'' then
        (if d = CHR ''$'' then CHR ''$'' # getSubstitution matched preceding following ds
         else if d = CHR ''&'' then matched @ getSubstitution matched preceding following ds
         else if d = CHR 0x60 then preceding @ getSubstitution matched preceding following ds
         else if d = CHR 0x27 then following @ getSubstitution matched preceding following ds
         else c # getSubstitution matched preceding following (d # ds))
      else c # getSubstitution matched preceding following (d # ds))"

text \<open>\<open>s.replace(pat, rep)\<close> for strings \<open>pat\<close> and \<open>rep\<close>: the leftmost match only.\<close>

definition replace :: "string \<Rightarrow> string \<Rightarrow> string \<Rightarrow> string" where
  "replace s pat rep =
     (case indexOf s pat of
        None \<Rightarrow> s
      | Some i \<Rightarrow>
          (let preceding = take i s;
               following = drop (i + length pat) s
           in preceding @ getSubstitution pat preceding following rep @ following))"

text \<open>\<open>xs.join(sep)\<close>.\<close>

fun join :: "string \<Rightarrow> string list \<Rightarrow> string" where
  "join sep [] = []"
| "join sep [x] = x"
| "join sep (x # y # ys) = x @ sep @ join sep (y # ys)"

text \<open>The decimal rendering of a non-negative integer, as a template literal prints it.\<close>

fun show_nat :: "nat \<Rightarrow> string" where
  "show_nat n =
     (if n < 10 then [char_of (48 + n)]
      else show_nat (n div 10) @ [char_of (48 + n mod 10)])"

declare show_nat.simps [simp del]

section \<open>Data model\<close>

text \<open>A thrown value: \<open>Error\<close> with its message and, for a client error, its HTTP status.\<close>

datatype js_error = JsError (error_message: string) (status: "nat option")

type_synonym vector = "real list"

datatype distance = Cosine | Euclid | Dot | Manhattan

record vector_params =
  size_v :: nat
  distance_v :: distance

text \<open>
  The \<open>vectors\<close> entry of a collection's parameters: one unnamed vector space, or a table
  of named ones (which has no numeric \<open>size\<close> property of its own).
\<close>

datatype vectors_config = Single vector_params | Named "(string \<times> vector_params) list"

record collection_info =
  vectors :: "vectors_config option"
  default_segment_number :: nat
  replication_factor :: nat
  write_consistency_factor :: nat

record payload =
  text_p :: string
  timestamp :: nat
  chunkIndex :: nat

record point =
  point_id :: nat
  vector :: vector
  payload :: payload

datatype hit = Hit (hit_id: nat) (score: real) (hit_payload: "payload option")

datatype message = Message (role: string) (content: string)

datatype reply = Reply (reply_content: "string option")

datatype choice = Choice (choice_message: "reply option")

datatype completion = Completion (choices: "choice list")

text \<open>\<open>RAGConfig\<close>; a field that is \<open>undefined\<close> is \<open>None\<close>.\<close>

record prompts_config =
  classification_opt :: "string option"
  response_opt :: "string option"

record RAGConfig =
  googleApiKey :: "string option"
  qdrantUrl :: "string option"
  qdrantApiKey :: "string option"
  groqApiKey :: "string option"
  collectionName_opt :: "string option"
  fallbackResponse_opt :: "string option"
  prompts_opt :: "prompts_config option"

text \<open>
  The templates of a pipeline. Their declared type is \<open>string\<close>; \<open>None\<close> is the value
  \<open>undefined\<close>, which \<open>updatePrompts\<close> can store.
\<close>

record prompts_rec =
  classification :: "string option"
  response :: "string option"

text \<open>An own property of an object literal: absent, or present with its value.\<close>

datatype 'a own_property = Absent | Present 'a

text \<open>
  \<open>Partial<typeof this.prompts>\<close>: each template is absent, or present with a string or
  with \<open>undefined\<close>.
\<close>

record partial_prompts =
  classification_arg :: "string option own_property"
  response_arg :: "string option own_property"

record qdrant_handle =
  url :: string
  apiKey :: string

record embeddings_handle =
  embeddings_apiKey :: string
  embeddings_model :: string

record RAGImplementation =
  qdrantClient :: qdrant_handle
  embeddings :: embeddings_handle
  groqClient :: string
  collectionName :: string
  fallbackResponse :: string
  prompts :: prompts_rec

record RAGResponse =
  response_r :: string
  category :: string

section \<open>The collaborators\<close>

text \<open>
  The vector store, the embedding provider, the chat provider, the text splitter and the
  system clock are libraries and services outside the repository. They are the \<open>world\<close>
  the pipeline runs in: every call the pipeline makes is appended to \<open>calls\<close>; every
  network request takes its outcome from the head of \<open>faults\<close> (\<open>Some e\<close>: the request is
  rejected with \<open>e\<close> and changes nothing; \<open>None\<close>, or an exhausted list: it is served); the
  store keeps the collections and, per collection, the points of the acknowledged upserts
  in the order of acknowledgment. What the providers compute (the chunks of a text, the
  embedding of a text, the ranking of the stored points, the completion of a chat) is a
  parameter of the world, and so is what the constructors of the three clients do with
  their arguments: \<open>None\<close> when the client is built, \<open>Some e\<close> when the constructor throws
  \<open>e\<close> (the Qdrant client validates its url). Constructing a client issues no request.
\<close>

datatype call =
    NewQdrantClient string string
  | NewEmbeddings string string
  | NewGroq string
  | SplitText nat nat string
  | EmbedQuery string
  | GetCollection string
  | CreateCollection string collection_info
  | Upsert string "point list" bool
  | Search string vector nat
  | ChatCompletionsCreate "message list" string

record world =
  calls :: "call list"
  faults :: "js_error option list"
  collections :: "string \<rightharpoonup> collection_info"
  points :: "string \<Rightarrow> point list"
  clock :: "nat \<Rightarrow> nat"
  reads :: nat
  splitter :: "nat \<Rightarrow> nat \<Rightarrow> string \<Rightarrow> string list"
  embedder :: "string \<Rightarrow> vector"
  ranker :: "vector \<Rightarrow> point list \<Rightarrow> hit list"
  chat :: "message list \<Rightarrow> completion"
  qdrant_ctor :: "string \<Rightarrow> string \<Rightarrow> js_error option"
  embeddings_ctor :: "string \<Rightarrow> string \<Rightarrow> js_error option"
  groq_ctor :: "string \<Rightarrow> js_error option"

definition request :: "call \<Rightarrow> world \<Rightarrow> js_error option \<times> world" where
  "request c w =
     (case faults w of [] \<Rightarrow> None | f # fs \<Rightarrow> f,
      w\<lparr>calls := calls w @ [c], faults := tl (faults w)\<rparr>)"

text \<open>The next \<open>n\<close> requests are served.\<close>

definition served :: "nat \<Rightarrow> world \<Rightarrow> bool" where
  "served n w \<longleftrightarrow> (\<forall>f \<in> set (take n (faults w)). f = None)"

text \<open>\<open>new QdrantClient({url, apiKey})\<close>, \<open>new GoogleGenerativeAIEmbeddings({apiKey, model})\<close>
  and \<open>new Groq({apiKey})\<close>.\<close>

definition new_QdrantClient :: "string \<Rightarrow> string \<Rightarrow> world \<Rightarrow> js_error option \<times> world" where
  "new_QdrantClient u k w = (qdrant_ctor w u k, w\<lparr>calls := calls w @ [NewQdrantClient u k]\<rparr>)"

definition new_Embeddings :: "string \<Rightarrow> string \<Rightarrow> world \<Rightarrow> js_error option \<times> world" where
  "new_Embeddings k m w = (embeddings_ctor w k m, w\<lparr>calls := calls w @ [NewEmbeddings k m]\<rparr>)"

definition new_Groq :: "string \<Rightarrow> world \<Rightarrow> js_error option \<times> world" where
  "new_Groq k w = (groq_ctor w k, w\<lparr>calls := calls w @ [NewGroq k]\<rparr>)"

text \<open>\<open>Date.now()\<close> and \<open>new Date()\<close>: the next reading of the clock, in milliseconds.\<close>

definition Date_now :: "world \<Rightarrow> nat \<times> world" where
  "Date_now w = (clock w (reads w), w\<lparr>reads := Suc (reads w)\<rparr>)"

definition splitText :: "nat \<Rightarrow> nat \<Rightarrow> string \<Rightarrow> world \<Rightarrow> string list \<times> world" where
  "splitText chunkSize chunkOverlap s w =
     (splitter w chunkSize chunkOverlap s,
      w\<lparr>calls := calls w @ [SplitText chunkSize chunkOverlap s]\<rparr>)"

definition embedQuery :: "string \<Rightarrow> world \<Rightarrow> (js_error + vector) \<times> world" where
  "embedQuery s w =
     (case request (EmbedQuery s) w of
        (Some e, w') \<Rightarrow> (Inl e, w')
      | (None, w') \<Rightarrow> (Inr (embedder w' s), w'))"

text \<open>A collection that does not exist is reported with status 404.\<close>

definition getCollection :: "string \<Rightarrow> world \<Rightarrow> (js_error + collection_info) \<times> world" where
  "getCollection name w =
     (case request (GetCollection name) w of
        (Some e, w') \<Rightarrow> (Inl e, w')
      | (None, w') \<Rightarrow>
          (case collections w' name of
             None \<Rightarrow> (Inl (JsError ''Not found'' (Some 404)), w')
           | Some c \<Rightarrow> (Inr c, w')))"

definition createCollection ::
  "string \<Rightarrow> collection_info \<Rightarrow> world \<Rightarrow> (js_error + unit) \<times> world" where
  "createCollection name params w =
     (case request (CreateCollection name params) w of
        (Some e, w') \<Rightarrow> (Inl e, w')
      | (None, w') \<Rightarrow>
          (case collections w' name of
             Some c \<Rightarrow> (Inl (JsError ''Conflict'' (Some 409)), w')
           | None \<Rightarrow> (Inr (), w'\<lparr>collections := (collections w')(name \<mapsto> params)\<rparr>)))"

definition upsert :: "string \<Rightarrow> point list \<Rightarrow> bool \<Rightarrow> world \<Rightarrow> (js_error + unit) \<times> world" where
  "upsert name batch wait w =
     (case request (Upsert name batch wait) w of
        (Some e, w') \<Rightarrow> (Inl e, w')
      | (None, w') \<Rightarrow> (Inr (), w'\<lparr>points := (points w')(name := points w' name @ batch)\<rparr>))"

definition search :: "string \<Rightarrow> vector \<Rightarrow> nat \<Rightarrow> world \<Rightarrow> (js_error + hit list) \<times> world" where
  "search name v limit w =
     (case request (Search name v limit) w of
        (Some e, w') \<Rightarrow> (Inl e, w')
      | (None, w') \<Rightarrow> (Inr (take limit (ranker w' v (points w' name))), w'))"

definition chat_completions_create ::
  "message list \<Rightarrow> string \<Rightarrow> world \<Rightarrow> (js_error + completion) \<times> world" where
  "chat_completions_create messages model w =
     (case request (ChatCompletionsCreate messages model) w of
        (Some e, w') \<Rightarrow> (Inl e, w')
      | (None, w') \<Rightarrow> (Inr (chat w' messages), w'))"

section \<open>The pipeline: class RAGImplementation\<close>

definition default_classification :: string where
  "default_classification =
     ''I am providing you a query, based on the query your work is detect whether that is related to marks, events or general information. ''
     @ [CHR 0x0A, CHR 0x0A] @ ''Query: {query} ''
     @ [CHR 0x0A, CHR 0x0A] @ ''Please type marks, events or general based on the query. ''
     @ [CHR 0x0A, CHR 0x0A] @ ''Please type only one of the three words and dont type any other text. ''
     @ [CHR 0x0A, CHR 0x0A] @ ''If you are not sure, you can type general. Write your lowercase only, never put anything in uppercase''"

definition default_response :: string where
  "default_response =
     ''You are a helpful assistant. Based on this context: '' @ [CHR 0x22] @ ''{context}''
     @ [CHR 0x22] @ '', please answer this question: '' @ [CHR 0x22] @ ''{query}'' @ [CHR 0x22]
     @ ''. If you cannot find a relevant answer in the context, please say so.''"

definition default_fallback :: string where
  "default_fallback = ''I could not find relevant information for your query.''"

definition chat_model :: string where
  "chat_model = ''llama3-8b-8192''"

definition embedding_model :: string where
  "embedding_model = ''text-embedding-004''"

text \<open>
  The constructor: the guard on the four required fields, then the three clients in the
  order of the source (a constructor that throws ends the construction there), then the
  optional fields with their defaults.
\<close>

definition constructor :: "RAGConfig \<Rightarrow> world \<Rightarrow> (js_error + RAGImplementation) \<times> world" where
  "constructor config w =
     (if \<not> truthy (googleApiKey config) \<or> \<not> truthy (qdrantUrl config)
         \<or> \<not> truthy (qdrantApiKey config) \<or> \<not> truthy (groqApiKey config)
      then (Inl (JsError ''Required configuration parameters are missing'' None), w)
      else
        (case new_QdrantClient (the (qdrantUrl config)) (the (qdrantApiKey config)) w of
           (Some e, w1) \<Rightarrow> (Inl e, w1)
         | (None, w1) \<Rightarrow>
             (case new_Embeddings (the (googleApiKey config)) embedding_model w1 of
                (Some e, w2) \<Rightarrow> (Inl e, w2)
              | (None, w2) \<Rightarrow>
                  (case new_Groq (the (groqApiKey config)) w2 of
                     (Some e, w3) \<Rightarrow> (Inl e, w3)
                   | (None, w3) \<Rightarrow>
                       (Inr \<lparr> qdrantClient = \<lparr> url = the (qdrantUrl config),
                                                apiKey = the (qdrantApiKey config) \<rparr>,
                              embeddings = \<lparr> embeddings_apiKey = the (googleApiKey config),
                                             embeddings_model = embedding_model \<rparr>,
                              groqClient = the (groqApiKey config),
                              collectionName =
                                or_default (collectionName_opt config) ''default_collection'',
                              fallbackResponse =
                                or_default (fallbackResponse_opt config) default_fallback,
                              prompts =
                                \<lparr> classification =
                                    Some (or_default
                                            (Option.bind (prompts_opt config) classification_opt)
                                            default_classification),
                                  response =
                                    Some (or_default
                                            (Option.bind (prompts_opt config) response_opt)
                                            default_response) \<rparr> \<rparr>,
                        w3)))))"

text \<open>\<open>completion.choices[0]?.message?.content\<close>\<close>

definition first_content :: "completion \<Rightarrow> string option" where
  "first_content c =
     (case choices c of
        [] \<Rightarrow> None
      | ch # _ \<Rightarrow> (case choice_message ch of None \<Rightarrow> None | Some m \<Rightarrow> reply_content m))"

text \<open>The \<open>TypeError\<close> of calling \<open>replace\<close> on a template that is \<open>undefined\<close>.\<close>

definition undefined_replace :: js_error where
  "undefined_replace =
     JsError (''Cannot read properties of undefined (reading '' @ [CHR 0x27] @ ''replace''
                @ [CHR 0x27] @ '')'') None"

definition classifyQuery ::
  "RAGImplementation \<Rightarrow> string \<Rightarrow> world \<Rightarrow> (js_error + string) \<times> world" where
  "classifyQuery this query w =
     (case classification (prompts this) of
        None \<Rightarrow> (Inl undefined_replace, w)
      | Some template \<Rightarrow>
          (let prompt = replace template ''{query}'' query in
           case chat_completions_create [Message ''user'' prompt] chat_model w of
             (Inl e, w') \<Rightarrow> (Inl e, w')
           | (Inr completion, w') \<Rightarrow>
               (Inr (or_default (first_content completion) ''general''), w')))"

text \<open>
  \<open>ensureCollection\<close>: the body of the \<open>try\<close> block first, then the \<open>catch\<close> clause, which
  also receives the mismatch error thrown inside the block.
\<close>

definition ensureCollection ::
  "RAGImplementation \<Rightarrow> nat \<Rightarrow> world \<Rightarrow> (js_error + unit) \<times> world" where
  "ensureCollection this vectorSize w =
     (let (tried, w1) =
            (case getCollection (collectionName this) w of
               (Inl e, w') \<Rightarrow> (Inl e, w')
             | (Inr collection, w') \<Rightarrow>
                 (if (case vectors collection of
                        None \<Rightarrow> True
                      | Some (Single p) \<Rightarrow> size_v p \<noteq> vectorSize
                      | Some (Named _) \<Rightarrow> True)
                  then (Inl (JsError (''Vector size mismatch. Expected: '' @ show_nat vectorSize)
                               None), w')
                  else (Inr (), w')))
      in case tried of
           Inr u \<Rightarrow> (Inr u, w1)
         | Inl error \<Rightarrow>
             (if status error = Some 404
              then createCollection (collectionName this)
                     \<lparr> vectors = Some (Single \<lparr> size_v = vectorSize, distance_v = Cosine \<rparr>),
                       default_segment_number = 2,
                       replication_factor = 2,
                       write_consistency_factor = 1 \<rparr> w1
              else (Inl error, w1)))"

text \<open>
  \<open>Promise.all(documentTexts.map(text => this.embeddings.embedQuery(text)))\<close>: every
  request is issued; the result is the list of the vectors, or a rejection when a request
  was rejected (the one of the smallest index stands for the first one to arrive).
\<close>

fun embed_each :: "string list \<Rightarrow> world \<Rightarrow> (js_error + vector) list \<times> world" where
  "embed_each [] w = ([], w)"
| "embed_each (t # ts) w =
     (let (r, w1) = embedQuery t w;
          (rs, w2) = embed_each ts w1
      in (r # rs, w2))"

fun promise_all :: "(js_error + 'a) list \<Rightarrow> js_error + 'a list" where
  "promise_all [] = Inr []"
| "promise_all (Inl e # rs) = Inl e"
| "promise_all (Inr v # rs) = (case promise_all rs of Inl e \<Rightarrow> Inl e | Inr vs \<Rightarrow> Inr (v # vs))"

text \<open>
  \<open>documentTexts.map((text, i) => ({id: Date.now() + i, vector: Array.from(embeds[i]),
  payload: {text: text.trim(), timestamp: new Date().toISOString(), chunkIndex: i}}))\<close>,
  from index \<open>i\<close> on. The timestamp is kept as the clock reading it renders.
\<close>

fun make_points ::
  "string list \<Rightarrow> vector list \<Rightarrow> nat \<Rightarrow> world \<Rightarrow> (js_error + point list) \<times> world" where
  "make_points [] embeds i w = (Inr [], w)"
| "make_points (t # ts) embeds i w =
     (let (now, w1) = Date_now w in
      if i < length embeds then
        (let (stamp, w2) = Date_now w1;
             p = \<lparr> point_id = now + i,
                   vector = embeds ! i,
                   payload = \<lparr> text_p = trim t, timestamp = stamp, chunkIndex = i \<rparr> \<rparr>
         in case make_points ts embeds (Suc i) w2 of
              (Inl e, w3) \<Rightarrow> (Inl e, w3)
            | (Inr ps, w3) \<Rightarrow> (Inr (p # ps), w3))
      else (Inl (JsError ''undefined is not iterable'' None), w1))"

definition batchSize :: nat where
  "batchSize = 10"

text \<open>\<open>xs.slice(i, j)\<close> for \<open>0 \<le> i \<le> j\<close>.\<close>

definition slice :: "'a list \<Rightarrow> nat \<Rightarrow> nat \<Rightarrow> 'a list" where
  "slice xs i j = take (j - i) (drop i xs)"

text \<open>The \<open>for\<close> loop of \<open>createVectorStore\<close>, from loop index \<open>i\<close> on.\<close>

function upsert_loop ::
  "RAGImplementation \<Rightarrow> point list \<Rightarrow> nat \<Rightarrow> world \<Rightarrow> (js_error + unit) \<times> world" where
  "upsert_loop this pts i w =
     (if i < length pts then
        (let batch = slice pts i (i + batchSize) in
         case upsert (collectionName this) batch True w of
           (Inl e, w') \<Rightarrow> (Inl e, w')
         | (Inr _, w') \<Rightarrow> upsert_loop this pts (i + batchSize) w')
      else (Inr (), w))"
  by pat_completeness auto
termination
  by (relation "measure (\<lambda>(this, pts, i, w). length pts - i)") (auto simp: batchSize_def)

declare upsert_loop.simps [simp del]

definition createVectorStore ::
  "RAGImplementation \<Rightarrow> string \<Rightarrow> world \<Rightarrow> (js_error + unit) \<times> world" where
  "createVectorStore this txt w =
     (if trim txt = [] then
        (Inl (JsError ''No text provided for vector store creation'' None), w)
      else
        (let (documentTexts, w1) = splitText 1000 200 txt w;
             (results, w2) = embed_each documentTexts w1
         in case promise_all results of
              Inl e \<Rightarrow> (Inl e, w2)
            | Inr embeds \<Rightarrow>
                (case embeds of
                   [] \<Rightarrow> (Inl (JsError ''Cannot read properties of undefined'' None), w2)
                 | e0 # _ \<Rightarrow>
                     (case ensureCollection this (length e0) w2 of
                        (Inl e, w3) \<Rightarrow> (Inl e, w3)
                      | (Inr _, w3) \<Rightarrow>
                          (case make_points documentTexts embeds 0 w3 of
                             (Inl e, w4) \<Rightarrow> (Inl e, w4)
                           | (Inr pts, w4) \<Rightarrow> upsert_loop this pts 0 w4)))))"

definition getBotResponse ::
  "RAGImplementation \<Rightarrow> string \<Rightarrow> world \<Rightarrow> (js_error + string) \<times> world" where
  "getBotResponse this userInput w =
     (case embedQuery userInput w of
        (Inl e, w1) \<Rightarrow> (Inl e, w1)
      | (Inr queryEmbed, w1) \<Rightarrow>
          (case search (collectionName this) queryEmbed 3 w1 of
             (Inl e, w2) \<Rightarrow> (Inl e, w2)
           | (Inr searchResults, w2) \<Rightarrow>
               (if searchResults = [] then (Inr (fallbackResponse this), w2)
                else
                  (let ctx = join '' ''
                         (map (\<lambda>h. or_default (map_option text_p (hit_payload h)) [])
                            searchResults)
                   in case response (prompts this) of
                        None \<Rightarrow> (Inl undefined_replace, w2)
                      | Some template \<Rightarrow>
                          (let prompt = replace (replace template ''{context}'' ctx)
                                          ''{query}'' userInput
                           in case chat_completions_create [Message ''user'' prompt]
                                     chat_model w2 of
                                (Inl e, w3) \<Rightarrow> (Inl e, w3)
                              | (Inr completion, w3) \<Rightarrow>
                                  (Inr (or_default (first_content completion)
                                          (fallbackResponse this)),
                                   w3))))))"

definition processQuery ::
  "RAGImplementation \<Rightarrow> string \<Rightarrow> string \<Rightarrow> world \<Rightarrow> (js_error + RAGResponse) \<times> world" where
  "processQuery this contextText query w =
     (case classifyQuery this query w of
        (Inl e, w1) \<Rightarrow> (Inl e, w1)
      | (Inr cat, w1) \<Rightarrow>
          (case createVectorStore this contextText w1 of
             (Inl e, w2) \<Rightarrow> (Inl e, w2)
           | (Inr _, w2) \<Rightarrow>
               (case getBotResponse this query w2 of
                  (Inl e, w3) \<Rightarrow> (Inl e, w3)
                | (Inr answer, w3) \<Rightarrow> (Inr \<lparr> response_r = answer, category = cat \<rparr>, w3))))"

text \<open>
  Object spread, property by property: \<open>{...old, ...new}\<close> has the later object's value
  where the later object has the property (also when that value is \<open>undefined\<close>), and the
  earlier object's value where it has not.
\<close>

definition spread :: "'a \<Rightarrow> 'a own_property \<Rightarrow> 'a" where
  "spread old new = (case new of Absent \<Rightarrow> old | Present v \<Rightarrow> v)"

text \<open>\<open>updatePrompts\<close>: \<open>this.prompts = {...this.prompts, ...newPrompts}\<close>.\<close>

definition updatePrompts :: "partial_prompts \<Rightarrow> RAGImplementation \<Rightarrow> RAGImplementation" where
  "updatePrompts newPrompts this =
     this\<lparr>prompts :=
       \<lparr> classification = spread (classification (prompts this)) (classification_arg newPrompts),
         response = spread (response (prompts this)) (response_arg newPrompts) \<rparr>\<rparr>"

section \<open>The partition into batches, as the specification words it\<close>

text \<open>
  Consecutive batches of \<open>n\<close> elements each, the last one possibly smaller. This is the
  partition the upsert loop is compared with; the loop itself is \<open>upsert_loop\<close> above.
\<close>

function batches_of :: "nat \<Rightarrow> 'a list \<Rightarrow> 'a list list" where
  "batches_of n xs =
     (if n = 0 \<or> xs = [] then [] else take n xs # batches_of n (drop n xs))"
  by pat_completeness auto
termination
  by (relation "measure (\<lambda>(n, xs). length xs)") auto

declare batches_of.simps [simp del]

section \<open>Sample values\<close>

text \<open>
  A configuration (the required fields as in the repository's example), a pipeline and a world to run
  the definitions on: an empty store, a clock that stands still, a splitter that returns
  the text as its only chunk, an embedding of dimension two, a ranking that keeps the
  stored order, a chat model that answers every prompt with the same text, and a Qdrant
  client that refuses a url without protocol.
\<close>

definition sample_config :: RAGConfig where
  "sample_config =
     \<lparr> googleApiKey = Some ''your-google-api-key'',
       qdrantUrl = Some ''your-qdrant-url'',
       qdrantApiKey = Some ''your-qdrant-api-key'',
       groqApiKey = Some ''your-groq-api-key'',
       collectionName_opt = None,
       fallbackResponse_opt = Some ''Sorry, I could not find relevant information.'',
       prompts_opt = Some \<lparr> classification_opt = Some ''Classify: {query}'',
                               response_opt = None \<rparr> \<rparr>"

definition sample_rag :: RAGImplementation where
  "sample_rag =
     \<lparr> qdrantClient = \<lparr> url = ''http://localhost:6333'', apiKey = ''your-qdrant-api-key'' \<rparr>,
       embeddings = \<lparr> embeddings_apiKey = ''your-google-api-key'',
                      embeddings_model = ''text-embedding-004'' \<rparr>,
       groqClient = ''your-groq-api-key'',
       collectionName = ''custom-collection'',
       fallbackResponse = ''Sorry, I could not find relevant information.'',
       prompts = \<lparr> classification = Some ''Classify: {query}'',
                   response = Some ''Context: {context} Question: {query}'' \<rparr> \<rparr>"

definition sample_point :: point where
  "sample_point =
     \<lparr> point_id = 1700000000000,
       vector = [1, 0],
       payload = \<lparr> text_p = ''Midterm exams are in October.'',
                   timestamp = 1700000000000,
                   chunkIndex = 0 \<rparr> \<rparr>"

definition sample_points :: "point list" where
  "sample_points = map (\<lambda>k. sample_point\<lparr>point_id := 1700000000000 + k\<rparr>) [0..<12]"

text \<open>
  The error of the Qdrant client's constructor for a url that does not start with
  \<open>http://\<close> or \<open>https://\<close>.
\<close>

definition url_protocol_error :: js_error where
  "url_protocol_error =
     JsError (''The '' @ [CHR 0x60] @ ''url'' @ [CHR 0x60]
                @ '' param expected to contain a valid URL starting with a protocol (e.g. ''
                @ [CHR 0x22] @ ''http://'' @ [CHR 0x22] @ '' or '' @ [CHR 0x22] @ ''https://''
                @ [CHR 0x22] @ '').'') None"

definition sample_world :: world where
  "sample_world =
     \<lparr> calls = [],
       faults = [],
       collections = Map.empty,
       points = (\<lambda>name. []),
       clock = (\<lambda>k. 1700000000000),
       reads = 0,
       splitter = (\<lambda>chunkSize chunkOverlap s. [s]),
       embedder = (\<lambda>s. [1, 0]),
       ranker = (\<lambda>v ps. map (\<lambda>p. Hit (point_id p) 1 (Some (payload p))) ps),
       chat = (\<lambda>ms. Completion [Choice (Some (Reply (Some '' marks'')))]),
       qdrant_ctor = (\<lambda>u k. if prefix ''http://'' u \<or> prefix ''https://'' u then None
                            else Some url_protocol_error),
       embeddings_ctor = (\<lambda>k m. None),
       groq_ctor = (\<lambda>k. None) \<rparr>"

section \<open>Facts about the string primitives\<close>

lemma trim_empty_iff: "trim s = [] \<longleftrightarrow> (\<forall>c \<in> set s. is_whitespace c)"
proof
  assume "trim s = []"
  then have a: "\<forall>x \<in> set (dropWhile is_whitespace s). is_whitespace x"
    by (simp add: trim_def)
  have "dropWhile is_whitespace s = []"
  proof (rule ccontr)
    assume ne: "dropWhile is_whitespace s \<noteq> []"
    then have "\<not> is_whitespace (hd (dropWhile is_whitespace s))"
      by (rule hd_dropWhile)
    moreover from ne have "hd (dropWhile is_whitespace s) \<in> set (dropWhile is_whitespace s)"
      by simp
    ultimately show False using a by blast
  qed
  then show "\<forall>c \<in> set s. is_whitespace c" by simp
next
  assume "\<forall>c \<in> set s. is_whitespace c"
  then have "dropWhile is_whitespace s = []" by simp
  then show "trim s = []" unfolding trim_def by (simp only: rev.simps dropWhile.simps)
qed

lemma getSubstitution_plain:
  "CHR ''$'' \<notin> set rep \<Longrightarrow> getSubstitution m p f rep = rep"
  by (induction m p f rep rule: getSubstitution.induct) auto

lemma indexOf_bound: "indexOf s pat = Some i \<Longrightarrow> i + length pat \<le> length s"
proof (induction s arbitrary: i)
  case Nil
  then show ?case by (simp split: if_splits)
next
  case (Cons c cs)
  show ?case
  proof (cases "prefix pat (c # cs)")
    case True
    with Cons.prems have "i = 0" by simp
    with prefix_length_le [OF True] show ?thesis by simp
  next
    case False
    with Cons.prems obtain j where "indexOf cs pat = Some j" "i = Suc j" by auto
    with Cons.IH show ?thesis by simp
  qed
qed

lemma indexOf_occurs: "indexOf s pat = Some i \<Longrightarrow> prefix pat (drop i s)"
proof (induction s arbitrary: i)
  case Nil
  then show ?case by (simp split: if_splits)
next
  case (Cons c cs)
  show ?case
  proof (cases "prefix pat (c # cs)")
    case True
    with Cons.prems show ?thesis by simp
  next
    case False
    with Cons.prems obtain j where "indexOf cs pat = Some j" "i = Suc j" by auto
    with Cons.IH show ?thesis by simp
  qed
qed

lemma indexOf_leftmost: "indexOf s pat = Some i \<Longrightarrow> j < i \<Longrightarrow> \<not> prefix pat (drop j s)"
proof (induction s arbitrary: i j)
  case Nil
  then show ?case by (simp split: if_splits)
next
  case (Cons c cs)
  show ?case
  proof (cases "prefix pat (c # cs)")
    case True
    with Cons.prems show ?thesis by simp
  next
    case False
    with Cons.prems obtain k where k: "indexOf cs pat = Some k" "i = Suc k" by auto
    show ?thesis
    proof (cases j)
      case 0
      with False show ?thesis by simp
    next
      case (Suc j')
      with Cons.prems k have "j' < k" by simp
      with Cons.IH k Suc show ?thesis by simp
    qed
  qed
qed

lemma indexOf_None: "indexOf s pat = None \<Longrightarrow> \<not> prefix pat (drop j s)"
proof (induction s arbitrary: j)
  case Nil
  then show ?case by (simp split: if_splits)
next
  case (Cons c cs)
  then show ?case by (cases j) (auto split: if_splits)
qed

lemma indexOf_split:
  "indexOf s pat = Some i \<Longrightarrow> s = take i s @ pat @ drop (i + length pat) s"
proof -
  assume a: "indexOf s pat = Some i"
  then have "prefix pat (drop i s)" by (rule indexOf_occurs)
  then obtain r where r: "drop i s = pat @ r" by (auto simp: prefix_def)
  then have "drop (length pat) (drop i s) = r" by simp
  then have "drop (i + length pat) s = r" by (simp add: add.commute)
  with r have "take i s @ pat @ drop (i + length pat) s = take i s @ drop i s" by simp
  then show ?thesis by simp
qed

lemma indexOf_append: "indexOf s pat = Some i \<Longrightarrow> indexOf (s @ r) pat = Some i"
proof (induction s arbitrary: i)
  case Nil
  then show ?case by (cases r) (simp_all split: if_splits)
next
  case (Cons c cs)
  show ?case
  proof (cases "prefix pat (c # cs)")
    case True
    with Cons.prems have "i = 0" by simp
    moreover from True have "prefix pat ((c # cs) @ r)" by (rule prefix_prefix)
    ultimately show ?thesis by simp
  next
    case False
    with Cons.prems obtain k where k: "indexOf cs pat = Some k" "i = Suc k" by auto
    then have "length pat \<le> length (c # cs)" using indexOf_bound [OF k(1)] by simp
    then have len: "length pat \<le> length (c # cs)" .
    have "\<not> prefix pat ((c # cs) @ r)"
    proof
      assume p: "prefix pat ((c # cs) @ r)"
      have q: "prefix (c # cs) ((c # cs) @ r)" by simp
      from prefix_length_prefix [OF p q len] False show False by simp
    qed
    with k Cons.IH show ?thesis by simp
  qed
qed

lemma replace_at:
  "indexOf s pat = Some i \<Longrightarrow> CHR ''$'' \<notin> set rep \<Longrightarrow>
   replace s pat rep = take i s @ rep @ drop (i + length pat) s"
  by (simp add: replace_def getSubstitution_plain)

section \<open>Facts about requests\<close>

lemma request_served:
  "served (Suc n) w \<Longrightarrow>
   request c w = (None, w\<lparr>calls := calls w @ [c], faults := tl (faults w)\<rparr>)"
  by (cases "faults w") (simp_all add: request_def served_def)

lemma request_rejected:
  "faults w = Some e # fs \<Longrightarrow>
   request c w = (Some e, w\<lparr>calls := calls w @ [c], faults := fs\<rparr>)"
  by (simp add: request_def)

lemma served_tl:
  "served (Suc n) w \<Longrightarrow> served n (w\<lparr>calls := cs, faults := tl (faults w)\<rparr>)"
  by (cases "faults w") (simp_all add: served_def)

lemma served_mono: "served n w \<Longrightarrow> m \<le> n \<Longrightarrow> served m w"
  unfolding served_def by (meson set_take_subset_set_take subsetD)

lemma truthy_iff: "truthy v \<longleftrightarrow> v \<noteq> None \<and> v \<noteq> Some []"
  by (cases v) (simp_all add: truthy_def)

section \<open>Empty input\<close>

text \<open>
  Claim C6. When the source text is empty or consists of white space only,
  \<open>createVectorStore\<close> throws the error ``No text provided for vector store creation'' and
  leaves the world as it was: the call log is unchanged, so the splitter was not called
  and no embedding request, no collection request and no upsert was issued.
\<close>

theorem createVectorStore_empty_input:
  assumes "\<forall>c \<in> set txt. is_whitespace c"
  shows "createVectorStore this txt w =
           (Inl (JsError ''No text provided for vector store creation'' None), w)"
  using assms by (simp add: createVectorStore_def trim_empty_iff)

theorem createVectorStore_empty_input_witness:
  "trim [CHR 0x20, CHR 0x0A, CHR 0x09] = [] \<and>
   createVectorStore sample_rag [CHR 0x20, CHR 0x0A, CHR 0x09] sample_world =
     (Inl (JsError ''No text provided for vector store creation'' None), sample_world) \<and>
   calls sample_world = []"
proof -
  have h: "\<forall>c \<in> set [CHR 0x20, CHR 0x0A, CHR 0x09]. is_whitespace c"
    by (simp add: is_whitespace_def)
  from createVectorStore_empty_input [OF h, of sample_rag sample_world] h
  show ?thesis by (simp add: sample_world_def trim_empty_iff)
qed

section \<open>Construction\<close>

lemma calls_appended: "xs \<noteq> [] \<Longrightarrow> w\<lparr>calls := calls w @ xs\<rparr> \<noteq> w"
proof
  assume ne: "xs \<noteq> []" and eq: "w\<lparr>calls := calls w @ xs\<rparr> = w"
  from eq have "calls (w\<lparr>calls := calls w @ xs\<rparr>) = calls w" by simp
  with ne show False by simp
qed

lemma constructor_missing:
  "\<not> truthy (googleApiKey config) \<or> \<not> truthy (qdrantUrl config)
     \<or> \<not> truthy (qdrantApiKey config) \<or> \<not> truthy (groqApiKey config) \<Longrightarrow>
   constructor config w =
     (Inl (JsError ''Required configuration parameters are missing'' None), w)"
  by (simp add: constructor_def)

lemma constructor_present:
  assumes "googleApiKey config = Some g" "g \<noteq> []" "qdrantUrl config = Some u" "u \<noteq> []"
    "qdrantApiKey config = Some k" "k \<noteq> []" "groqApiKey config = Some q" "q \<noteq> []"
  shows "constructor config w =
     (case qdrant_ctor w u k of
        Some e \<Rightarrow> (Inl e, w\<lparr>calls := calls w @ [NewQdrantClient u k]\<rparr>)
      | None \<Rightarrow>
          (case embeddings_ctor w g ''text-embedding-004'' of
             Some e \<Rightarrow>
               (Inl e, w\<lparr>calls := calls w @
                   [NewQdrantClient u k, NewEmbeddings g ''text-embedding-004'']\<rparr>)
           | None \<Rightarrow>
               (case groq_ctor w q of
                  Some e \<Rightarrow>
                    (Inl e, w\<lparr>calls := calls w @
                        [NewQdrantClient u k, NewEmbeddings g ''text-embedding-004'',
                         NewGroq q]\<rparr>)
                | None \<Rightarrow>
                    (Inr \<lparr> qdrantClient = \<lparr> url = u, apiKey = k \<rparr>,
                           embeddings = \<lparr> embeddings_apiKey = g,
                                          embeddings_model = ''text-embedding-004'' \<rparr>,
                           groqClient = q,
                           collectionName =
                             (case collectionName_opt config of
                                Some (c # cs) \<Rightarrow> c # cs | _ \<Rightarrow> ''default_collection''),
                           fallbackResponse =
                             (case fallbackResponse_opt config of
                                Some (c # cs) \<Rightarrow> c # cs
                              | _ \<Rightarrow> ''I could not find relevant information for your query.''),
                           prompts =
                             \<lparr> classification =
                                 Some (case Option.bind (prompts_opt config) classification_opt of
                                         Some (c # cs) \<Rightarrow> c # cs
                                       | _ \<Rightarrow> default_classification),
                               response =
                                 Some (case Option.bind (prompts_opt config) response_opt of
                                         Some (c # cs) \<Rightarrow> c # cs
                                       | _ \<Rightarrow> default_response) \<rparr> \<rparr>,
                     w\<lparr>calls := calls w @
                         [NewQdrantClient u k, NewEmbeddings g ''text-embedding-004'',
                          NewGroq q]\<rparr>))))"
proof -
  have d: "or_default v x = (case v of Some (c # cs) \<Rightarrow> c # cs | _ \<Rightarrow> x)" for v x
    by (simp add: or_default_def split: option.split list.split)
  show ?thesis
    using assms
    by (simp add: constructor_def truthy_def new_QdrantClient_def new_Embeddings_def
          new_Groq_def embedding_model_def default_fallback_def d [symmetric]
          split: option.split)
qed

text \<open>
  Claim C7, as the code has it. The constructor throws ``Required configuration parameters
  are missing'' with the world untouched (no client constructed, no request issued) if and
  only if one of \<open>googleApiKey\<close>, \<open>qdrantUrl\<close>, \<open>qdrantApiKey\<close>, \<open>groqApiKey\<close> is missing or
  empty. When the four are present it constructs the Qdrant client, the embedding client
  and the chat client, in this order, from the configured url and keys; a client
  constructor that throws ends the construction with its error; when none throws, the
  result is the pipeline with these clients, with the collection name, the fallback text
  and the two templates that the configuration supplies, and with \<open>default_collection\<close>
  and the other defaults for those it leaves out or empty. No request is issued in any
  case.
\<close>

theorem constructor_fail_fast:
  "(constructor config w =
       (Inl (JsError ''Required configuration parameters are missing'' None), w)
     \<longleftrightarrow>
       (googleApiKey config = None \<or> googleApiKey config = Some [] \<or>
        qdrantUrl config = None \<or> qdrantUrl config = Some [] \<or>
        qdrantApiKey config = None \<or> qdrantApiKey config = Some [] \<or>
        groqApiKey config = None \<or> groqApiKey config = Some []))
   \<and> (\<forall>g u k q.
          googleApiKey config = Some g \<and> g \<noteq> [] \<and> qdrantUrl config = Some u \<and> u \<noteq> [] \<and>
          qdrantApiKey config = Some k \<and> k \<noteq> [] \<and> groqApiKey config = Some q \<and> q \<noteq> []
          \<longrightarrow>
          constructor config w =
            (case qdrant_ctor w u k of
               Some e \<Rightarrow> (Inl e, w\<lparr>calls := calls w @ [NewQdrantClient u k]\<rparr>)
             | None \<Rightarrow>
                 (case embeddings_ctor w g ''text-embedding-004'' of
                    Some e \<Rightarrow>
                      (Inl e, w\<lparr>calls := calls w @
                          [NewQdrantClient u k, NewEmbeddings g ''text-embedding-004'']\<rparr>)
                  | None \<Rightarrow>
                      (case groq_ctor w q of
                         Some e \<Rightarrow>
                           (Inl e, w\<lparr>calls := calls w @
                               [NewQdrantClient u k, NewEmbeddings g ''text-embedding-004'',
                                NewGroq q]\<rparr>)
                       | None \<Rightarrow>
                           (Inr \<lparr> qdrantClient = \<lparr> url = u, apiKey = k \<rparr>,
                                  embeddings = \<lparr> embeddings_apiKey = g,
                                                 embeddings_model = ''text-embedding-004'' \<rparr>,
                                  groqClient = q,
                                  collectionName =
                                    (case collectionName_opt config of
                                       Some (c # cs) \<Rightarrow> c # cs
                                     | _ \<Rightarrow> ''default_collection''),
                                  fallbackResponse =
                                    (case fallbackResponse_opt config of
                                       Some (c # cs) \<Rightarrow> c # cs
                                     | _ \<Rightarrow>
                                       ''I could not find relevant information for your query.''),
                                  prompts =
                                    \<lparr> classification =
                                        Some (case Option.bind (prompts_opt config)
                                                     classification_opt of
                                                Some (c # cs) \<Rightarrow> c # cs
                                              | _ \<Rightarrow> default_classification),
                                      response =
                                        Some (case Option.bind (prompts_opt config)
                                                     response_opt of
                                                Some (c # cs) \<Rightarrow> c # cs
                                              | _ \<Rightarrow> default_response) \<rparr> \<rparr>,
                            w\<lparr>calls := calls w @
                                [NewQdrantClient u k, NewEmbeddings g ''text-embedding-004'',
                                 NewGroq q]\<rparr>)))))
   \<and> (\<forall>r w'. constructor config w = (r, w') \<longrightarrow>
          faults w' = faults w \<and> collections w' = collections w \<and> points w' = points w
          \<and> (\<forall>c \<in> set (drop (length (calls w)) (calls w')).
                 (\<exists>u k. c = NewQdrantClient u k) \<or> (\<exists>k m. c = NewEmbeddings k m)
                 \<or> (\<exists>k. c = NewGroq k)))"
proof (intro conjI)
  show "constructor config w =
       (Inl (JsError ''Required configuration parameters are missing'' None), w)
     \<longleftrightarrow>
       (googleApiKey config = None \<or> googleApiKey config = Some [] \<or>
        qdrantUrl config = None \<or> qdrantUrl config = Some [] \<or>
        qdrantApiKey config = None \<or> qdrantApiKey config = Some [] \<or>
        groqApiKey config = None \<or> groqApiKey config = Some [])"
  proof (cases "truthy (googleApiKey config) \<and> truthy (qdrantUrl config)
      \<and> truthy (qdrantApiKey config) \<and> truthy (groqApiKey config)")
    case False
    then show ?thesis using constructor_missing [of config w] by (auto simp: truthy_iff)
  next
    case True
    then obtain g u k q where p:
      "googleApiKey config = Some g" "g \<noteq> []" "qdrantUrl config = Some u" "u \<noteq> []"
      "qdrantApiKey config = Some k" "k \<noteq> []" "groqApiKey config = Some q" "q \<noteq> []"
      by (auto simp: truthy_iff)
    have "snd (constructor config w) \<noteq> w"
      unfolding constructor_present [OF p]
      by (auto split: option.split intro!: calls_appended)
    then have "constructor config w \<noteq>
       (Inl (JsError ''Required configuration parameters are missing'' None), w)"
      by auto
    with p show ?thesis by simp
  qed
next
  show "\<forall>g u k q.
          googleApiKey config = Some g \<and> g \<noteq> [] \<and> qdrantUrl config = Some u \<and> u \<noteq> [] \<and>
          qdrantApiKey config = Some k \<and> k \<noteq> [] \<and> groqApiKey config = Some q \<and> q \<noteq> []
          \<longrightarrow>
          constructor config w =
            (case qdrant_ctor w u k of
               Some e \<Rightarrow> (Inl e, w\<lparr>calls := calls w @ [NewQdrantClient u k]\<rparr>)
             | None \<Rightarrow>
                 (case embeddings_ctor w g ''text-embedding-004'' of
                    Some e \<Rightarrow>
                      (Inl e, w\<lparr>calls := calls w @
                          [NewQdrantClient u k, NewEmbeddings g ''text-embedding-004'']\<rparr>)
                  | None \<Rightarrow>
                      (case groq_ctor w q of
                         Some e \<Rightarrow>
                           (Inl e, w\<lparr>calls := calls w @
                               [NewQdrantClient u k, NewEmbeddings g ''text-embedding-004'',
                                NewGroq q]\<rparr>)
                       | None \<Rightarrow>
                           (Inr \<lparr> qdrantClient = \<lparr> url = u, apiKey = k \<rparr>,
                                  embeddings = \<lparr> embeddings_apiKey = g,
                                                 embeddings_model = ''text-embedding-004'' \<rparr>,
                                  groqClient = q,
                                  collectionName =
                                    (case collectionName_opt config of
                                       Some (c # cs) \<Rightarrow> c # cs
                                     | _ \<Rightarrow> ''default_collection''),
                                  fallbackResponse =
                                    (case fallbackResponse_opt config of
                                       Some (c # cs) \<Rightarrow> c # cs
                                     | _ \<Rightarrow>
                                       ''I could not find relevant information for your query.''),
                                  prompts =
                                    \<lparr> classification =
                                        Some (case Option.bind (prompts_opt config)
                                                     classification_opt of
                                                Some (c # cs) \<Rightarrow> c # cs
                                              | _ \<Rightarrow> default_classification),
                                      response =
                                        Some (case Option.bind (prompts_opt config)
                                                     response_opt of
                                                Some (c # cs) \<Rightarrow> c # cs
                                              | _ \<Rightarrow> default_response) \<rparr> \<rparr>,
                            w\<lparr>calls := calls w @
                                [NewQdrantClient u k, NewEmbeddings g ''text-embedding-004'',
                                 NewGroq q]\<rparr>))))"
    using constructor_present [of config _ _ _ _ w] by blast
next
  show "\<forall>r w'. constructor config w = (r, w') \<longrightarrow>
          faults w' = faults w \<and> collections w' = collections w \<and> points w' = points w
          \<and> (\<forall>c \<in> set (drop (length (calls w)) (calls w')).
                 (\<exists>u k. c = NewQdrantClient u k) \<or> (\<exists>k m. c = NewEmbeddings k m)
                 \<or> (\<exists>k. c = NewGroq k))"
    by (auto simp: constructor_def new_QdrantClient_def new_Embeddings_def new_Groq_def
          split: if_splits option.splits)
qed

theorem constructor_fail_fast_witness:
  "constructor (sample_config\<lparr>googleApiKey := None\<rparr>) sample_world =
     (Inl (JsError ''Required configuration parameters are missing'' None), sample_world) \<and>
   constructor (sample_config\<lparr>qdrantUrl := Some ''http://localhost:6333''\<rparr>) sample_world =
     (Inr \<lparr> qdrantClient = \<lparr> url = ''http://localhost:6333'',
                              apiKey = ''your-qdrant-api-key'' \<rparr>,
            embeddings = \<lparr> embeddings_apiKey = ''your-google-api-key'',
                           embeddings_model = ''text-embedding-004'' \<rparr>,
            groqClient = ''your-groq-api-key'',
            collectionName = ''default_collection'',
            fallbackResponse = ''Sorry, I could not find relevant information.'',
            prompts = \<lparr> classification = Some ''Classify: {query}'',
                        response = Some default_response \<rparr> \<rparr>,
      sample_world\<lparr>calls :=
         [NewQdrantClient ''http://localhost:6333'' ''your-qdrant-api-key'',
          NewEmbeddings ''your-google-api-key'' ''text-embedding-004'',
          NewGroq ''your-groq-api-key'']\<rparr>)"
proof -
  have m: "googleApiKey (sample_config\<lparr>googleApiKey := None\<rparr>) = None" by simp
  from constructor_fail_fast [of "sample_config\<lparr>googleApiKey := None\<rparr>" sample_world] m
  have a: "constructor (sample_config\<lparr>googleApiKey := None\<rparr>) sample_world =
     (Inl (JsError ''Required configuration parameters are missing'' None), sample_world)"
    by blast
  let ?c = "sample_config\<lparr>qdrantUrl := Some ''http://localhost:6333''\<rparr>"
  have p: "googleApiKey ?c = Some ''your-google-api-key'' \<and> ''your-google-api-key'' \<noteq> []
      \<and> qdrantUrl ?c = Some ''http://localhost:6333'' \<and> ''http://localhost:6333'' \<noteq> []
      \<and> qdrantApiKey ?c = Some ''your-qdrant-api-key'' \<and> ''your-qdrant-api-key'' \<noteq> []
      \<and> groqApiKey ?c = Some ''your-groq-api-key'' \<and> ''your-groq-api-key'' \<noteq> []"
    by (simp add: sample_config_def)
  from constructor_fail_fast [of ?c sample_world] p
  have "constructor ?c sample_world =
            (case qdrant_ctor sample_world ''http://localhost:6333'' ''your-qdrant-api-key'' of
               Some e \<Rightarrow> (Inl e, sample_world\<lparr>calls := calls sample_world @
                   [NewQdrantClient ''http://localhost:6333'' ''your-qdrant-api-key'']\<rparr>)
             | None \<Rightarrow>
                 (case embeddings_ctor sample_world ''your-google-api-key''
                         ''text-embedding-004'' of
                    Some e \<Rightarrow>
                      (Inl e, sample_world\<lparr>calls := calls sample_world @
                          [NewQdrantClient ''http://localhost:6333'' ''your-qdrant-api-key'',
                           NewEmbeddings ''your-google-api-key'' ''text-embedding-004'']\<rparr>)
                  | None \<Rightarrow>
                      (case groq_ctor sample_world ''your-groq-api-key'' of
                         Some e \<Rightarrow>
                           (Inl e, sample_world\<lparr>calls := calls sample_world @
                               [NewQdrantClient ''http://localhost:6333'' ''your-qdrant-api-key'',
                                NewEmbeddings ''your-google-api-key'' ''text-embedding-004'',
                                NewGroq ''your-groq-api-key'']\<rparr>)
                       | None \<Rightarrow>
                           (Inr \<lparr> qdrantClient = \<lparr> url = ''http://localhost:6333'',
                                                    apiKey = ''your-qdrant-api-key'' \<rparr>,
                                  embeddings = \<lparr> embeddings_apiKey = ''your-google-api-key'',
                                                 embeddings_model = ''text-embedding-004'' \<rparr>,
                                  groqClient = ''your-groq-api-key'',
                                  collectionName =
                                    (case collectionName_opt ?c of
                                       Some (c # cs) \<Rightarrow> c # cs
                                     | _ \<Rightarrow> ''default_collection''),
                                  fallbackResponse =
                                    (case fallbackResponse_opt ?c of
                                       Some (c # cs) \<Rightarrow> c # cs
                                     | _ \<Rightarrow>
                                       ''I could not find relevant information for your query.''),
                                  prompts =
                                    \<lparr> classification =
                                        Some (case Option.bind (prompts_opt ?c)
                                                     classification_opt of
                                                Some (c # cs) \<Rightarrow> c # cs
                                              | _ \<Rightarrow> default_classification),
                                      response =
                                        Some (case Option.bind (prompts_opt ?c)
                                                     response_opt of
                                                Some (c # cs) \<Rightarrow> c # cs
                                              | _ \<Rightarrow> default_response) \<rparr> \<rparr>,
                            sample_world\<lparr>calls := calls sample_world @
                                [NewQdrantClient ''http://localhost:6333'' ''your-qdrant-api-key'',
                                 NewEmbeddings ''your-google-api-key'' ''text-embedding-004'',
                                 NewGroq ''your-groq-api-key'']\<rparr>))))"
    by blast
  then have b: "constructor ?c sample_world =
     (Inr \<lparr> qdrantClient = \<lparr> url = ''http://localhost:6333'',
                              apiKey = ''your-qdrant-api-key'' \<rparr>,
            embeddings = \<lparr> embeddings_apiKey = ''your-google-api-key'',
                           embeddings_model = ''text-embedding-004'' \<rparr>,
            groqClient = ''your-groq-api-key'',
            collectionName = ''default_collection'',
            fallbackResponse = ''Sorry, I could not find relevant information.'',
            prompts = \<lparr> classification = Some ''Classify: {query}'',
                        response = Some default_response \<rparr> \<rparr>,
      sample_world\<lparr>calls :=
         [NewQdrantClient ''http://localhost:6333'' ''your-qdrant-api-key'',
          NewEmbeddings ''your-google-api-key'' ''text-embedding-004'',
          NewGroq ''your-groq-api-key'']\<rparr>)"
    by (simp add: sample_config_def sample_world_def)
  from a b show ?thesis by blast
qed

text \<open>
  The claim's ``if and only if'' and ``construction succeeds'' do not hold: with the four
  required fields of the repository's example all present, the Qdrant client refuses the
  url \<open>your-qdrant-url\<close>, and the constructor throws that client's error.
\<close>

theorem constructor_rejected_url:
  "truthy (googleApiKey sample_config) \<and> truthy (qdrantUrl sample_config) \<and>
   truthy (qdrantApiKey sample_config) \<and> truthy (groqApiKey sample_config) \<and>
   constructor sample_config sample_world =
     (Inl url_protocol_error,
      sample_world\<lparr>calls := [NewQdrantClient ''your-qdrant-url'' ''your-qdrant-api-key'']\<rparr>)"
  by (simp add: constructor_def truthy_def new_QdrantClient_def sample_config_def
        sample_world_def)

section \<open>Prompt templates\<close>

text \<open>
  Claim C8. \<open>updatePrompts\<close> gives each template that is present in the argument the
  argument's value (a string, or \<open>undefined\<close> when the property is present with that value)
  and keeps each template that is absent from it; an argument with the classification
  template alone changes nothing but that template, and an empty argument changes nothing;
  the collection name, the fallback text and the three clients are unchanged.
\<close>

theorem updatePrompts_merge:
  "(\<forall>v. classification_arg newPrompts = Present v \<longrightarrow>
        classification (prompts (updatePrompts newPrompts this)) = v)
   \<and> (classification_arg newPrompts = Absent \<longrightarrow>
        classification (prompts (updatePrompts newPrompts this)) = classification (prompts this))
   \<and> (\<forall>v. response_arg newPrompts = Present v \<longrightarrow>
        response (prompts (updatePrompts newPrompts this)) = v)
   \<and> (response_arg newPrompts = Absent \<longrightarrow>
        response (prompts (updatePrompts newPrompts this)) = response (prompts this))
   \<and> updatePrompts \<lparr> classification_arg = Present (Some x), response_arg = Absent \<rparr> this =
       this\<lparr>prompts := (prompts this)\<lparr>classification := Some x\<rparr>\<rparr>
   \<and> updatePrompts \<lparr> classification_arg = Absent, response_arg = Absent \<rparr> this = this
   \<and> collectionName (updatePrompts newPrompts this) = collectionName this
   \<and> fallbackResponse (updatePrompts newPrompts this) = fallbackResponse this
   \<and> qdrantClient (updatePrompts newPrompts this) = qdrantClient this
   \<and> embeddings (updatePrompts newPrompts this) = embeddings this
   \<and> groqClient (updatePrompts newPrompts this) = groqClient this"
  by (simp add: updatePrompts_def spread_def)

theorem updatePrompts_merge_witness:
  "classification (prompts (updatePrompts
       \<lparr> classification_arg = Present (Some ''X''), response_arg = Absent \<rparr> sample_rag))
     = Some ''X'' \<and>
   response (prompts (updatePrompts
       \<lparr> classification_arg = Present (Some ''X''), response_arg = Absent \<rparr> sample_rag))
     = Some ''Context: {context} Question: {query}'' \<and>
   classification (prompts (updatePrompts
       \<lparr> classification_arg = Present None, response_arg = Absent \<rparr> sample_rag))
     = None"
proof -
  let ?a = "\<lparr> classification_arg = Present (Some ''X''), response_arg = Absent \<rparr>"
  let ?b = "\<lparr> classification_arg = Present None, response_arg = Absent \<rparr>"
  have a1: "classification_arg ?a = Present (Some ''X'')" and a2: "response_arg ?a = Absent"
    and b1: "classification_arg ?b = Present None"
    by simp_all
  from updatePrompts_merge [of ?a sample_rag] a1 a2
  have a: "classification (prompts (updatePrompts ?a sample_rag)) = Some ''X''"
    "response (prompts (updatePrompts ?a sample_rag)) = response (prompts sample_rag)"
    by blast+
  from updatePrompts_merge [of ?b sample_rag] b1
  have b: "classification (prompts (updatePrompts ?b sample_rag)) = None"
    by blast
  have r: "response (prompts sample_rag) = Some ''Context: {context} Question: {query}''"
    by (simp add: sample_rag_def)
  from a b r show ?thesis by simp
qed

section \<open>Served requests\<close>

lemma or_default_eq: "or_default v d = (if truthy v then the v else d)"
  by (cases v) (simp_all add: or_default_def truthy_def)

lemma drop_as_tl:
  "drop (Suc 0) xs = tl xs" "drop 1 xs = tl xs" "drop 2 xs = tl (tl xs)"
  "drop 3 xs = tl (tl (tl xs))"
  by (simp_all add: numeral_2_eq_2 numeral_3_eq_3 drop_Suc)

lemma getCollection_served:
  "served (Suc n) w \<Longrightarrow>
   getCollection name w =
     (case collections w name of
        None \<Rightarrow> Inl (JsError ''Not found'' (Some 404))
      | Some c \<Rightarrow> Inr c,
      w\<lparr>calls := calls w @ [GetCollection name], faults := tl (faults w)\<rparr>)"
  by (simp add: getCollection_def request_served split: option.split)

lemma createCollection_served:
  "served (Suc n) w \<Longrightarrow> collections w name = None \<Longrightarrow>
   createCollection name params w =
     (Inr (), w\<lparr>calls := calls w @ [CreateCollection name params], faults := tl (faults w),
                collections := (collections w)(name \<mapsto> params)\<rparr>)"
  by (simp add: createCollection_def request_served)

lemma embedQuery_served:
  "served (Suc n) w \<Longrightarrow>
   embedQuery s w =
     (Inr (embedder w s), w\<lparr>calls := calls w @ [EmbedQuery s], faults := tl (faults w)\<rparr>)"
  by (simp add: embedQuery_def request_served)

lemma search_served:
  "served (Suc n) w \<Longrightarrow>
   search name v k w =
     (Inr (take k (ranker w v (points w name))),
      w\<lparr>calls := calls w @ [Search name v k], faults := tl (faults w)\<rparr>)"
  by (simp add: search_def request_served)

lemma chat_served:
  "served (Suc n) w \<Longrightarrow>
   chat_completions_create ms m w =
     (Inr (chat w ms), w\<lparr>calls := calls w @ [ChatCompletionsCreate ms m], faults := tl (faults w)\<rparr>)"
  by (simp add: chat_completions_create_def request_served)

section \<open>Provisioning the collection\<close>

text \<open>
  Claim C1. When the request for the collection and, if one follows, the request that
  creates it are served, \<open>ensureCollection\<close> does one of three things. If the collection
  does not exist, it creates it with the given vector size, cosine distance and the fixed
  replication and optimizer settings. If it exists with one unnamed vector space of the
  given size, nothing changes but the request log. If it exists with a different size, the
  call fails with ``Vector size mismatch. Expected: n''; the only request issued is the one
  that read the collection, so nothing was created or changed.
\<close>

theorem ensureCollection_trichotomy:
  assumes "served 2 w"
  shows
  "(collections w (collectionName this) = None \<longrightarrow>
      ensureCollection this vectorSize w =
        (Inr (),
         w\<lparr>calls := calls w @
              [GetCollection (collectionName this),
               CreateCollection (collectionName this)
                 \<lparr> vectors = Some (Single \<lparr> size_v = vectorSize, distance_v = Cosine \<rparr>),
                   default_segment_number = 2, replication_factor = 2,
                   write_consistency_factor = 1 \<rparr>],
           faults := drop 2 (faults w),
           collections := (collections w)(collectionName this \<mapsto>
                 \<lparr> vectors = Some (Single \<lparr> size_v = vectorSize, distance_v = Cosine \<rparr>),
                   default_segment_number = 2, replication_factor = 2,
                   write_consistency_factor = 1 \<rparr>)\<rparr>))
   \<and> (\<forall>c p. collections w (collectionName this) = Some c \<and> vectors c = Some (Single p)
          \<and> size_v p = vectorSize \<longrightarrow>
      ensureCollection this vectorSize w =
        (Inr (), w\<lparr>calls := calls w @ [GetCollection (collectionName this)],
                   faults := drop 1 (faults w)\<rparr>))
   \<and> (\<forall>c p. collections w (collectionName this) = Some c \<and> vectors c = Some (Single p)
          \<and> size_v p \<noteq> vectorSize \<longrightarrow>
      ensureCollection this vectorSize w =
        (Inl (JsError (''Vector size mismatch. Expected: '' @ show_nat vectorSize) None),
         w\<lparr>calls := calls w @ [GetCollection (collectionName this)],
           faults := drop 1 (faults w)\<rparr>))"
proof -
  from assms have s1: "served (Suc (Suc 0)) w" by (simp add: numeral_2_eq_2)
  have s2: "served (Suc 0) (w\<lparr>calls := cs, faults := tl (faults w)\<rparr>)" for cs
    using served_tl [OF s1] .
  show ?thesis
    by (simp add: ensureCollection_def getCollection_served [OF s1]
          createCollection_served [OF s2] drop_as_tl)
qed

theorem ensureCollection_trichotomy_witness:
  "served 2 sample_world \<and> collections sample_world (collectionName sample_rag) = None \<and>
   fst (ensureCollection sample_rag 2 sample_world) = Inr () \<and>
   map_option vectors (collections (snd (ensureCollection sample_rag 2 sample_world))
      (collectionName sample_rag)) = Some (Some (Single \<lparr> size_v = 2, distance_v = Cosine \<rparr>)) \<and>
   ensureCollection sample_rag 2 (snd (ensureCollection sample_rag 2 sample_world)) =
     (Inr (), (snd (ensureCollection sample_rag 2 sample_world))
        \<lparr>calls := calls (snd (ensureCollection sample_rag 2 sample_world)) @
                    [GetCollection ''custom-collection'']\<rparr>) \<and>
   fst (ensureCollection sample_rag 3 (snd (ensureCollection sample_rag 2 sample_world))) =
     Inl (JsError ''Vector size mismatch. Expected: 3'' None) \<and>
   calls (snd (ensureCollection sample_rag 3 (snd (ensureCollection sample_rag 2 sample_world)))) =
     calls (snd (ensureCollection sample_rag 2 sample_world)) @ [GetCollection ''custom-collection'']"
proof -
  have s: "served 2 sample_world" by (simp add: served_def sample_world_def)
  have n: "collections sample_world (collectionName sample_rag) = None"
    by (simp add: sample_world_def)
  from ensureCollection_trichotomy [OF s, of sample_rag 2] n
  have a: "ensureCollection sample_rag 2 sample_world =
        (Inr (),
         sample_world\<lparr>calls := calls sample_world @
              [GetCollection (collectionName sample_rag),
               CreateCollection (collectionName sample_rag)
                 \<lparr> vectors = Some (Single \<lparr> size_v = 2, distance_v = Cosine \<rparr>),
                   default_segment_number = 2, replication_factor = 2,
                   write_consistency_factor = 1 \<rparr>],
           faults := drop 2 (faults sample_world),
           collections := (collections sample_world)(collectionName sample_rag \<mapsto>
                 \<lparr> vectors = Some (Single \<lparr> size_v = 2, distance_v = Cosine \<rparr>),
                   default_segment_number = 2, replication_factor = 2,
                   write_consistency_factor = 1 \<rparr>)\<rparr>)"
    by blast
  define w1 where "w1 = snd (ensureCollection sample_rag 2 sample_world)"
  have s1: "served 2 w1" unfolding w1_def a by (simp add: served_def sample_world_def)
  have c1: "collections w1 (collectionName sample_rag) =
     Some \<lparr> vectors = Some (Single \<lparr> size_v = 2, distance_v = Cosine \<rparr>),
                   default_segment_number = 2, replication_factor = 2,
                   write_consistency_factor = 1 \<rparr>"
    unfolding w1_def a by simp
  have f1: "faults w1 = []" unfolding w1_def a by (simp add: sample_world_def)
  from ensureCollection_trichotomy [OF s1, of sample_rag 2] c1
  have b: "ensureCollection sample_rag 2 w1 =
        (Inr (), w1\<lparr>calls := calls w1 @ [GetCollection (collectionName sample_rag)],
                   faults := drop 1 (faults w1)\<rparr>)"
    by simp
  from ensureCollection_trichotomy [OF s1, of sample_rag 3] c1
  have c: "ensureCollection sample_rag 3 w1 =
        (Inl (JsError (''Vector size mismatch. Expected: '' @ show_nat 3) None),
         w1\<lparr>calls := calls w1 @ [GetCollection (collectionName sample_rag)],
           faults := drop 1 (faults w1)\<rparr>)"
    by simp
  have n3: "show_nat 3 = ''3''" by code_simp
  show ?thesis
    unfolding w1_def [symmetric]
    using s n a b c c1 f1 n3 by (simp add: w1_def sample_rag_def)
qed

section \<open>The responder\<close>

lemma or_default_nonempty: "d \<noteq> [] \<Longrightarrow> or_default v d \<noteq> []"
  by (cases v) (simp_all add: or_default_def)

lemma constructor_fallback_nonempty:
  "constructor config w = (Inr r, w') \<Longrightarrow> fallbackResponse r \<noteq> []"
  by (auto simp: constructor_def or_default_nonempty default_fallback_def new_QdrantClient_def
        new_Embeddings_def new_Groq_def split: if_splits option.splits)

lemma updatePrompts_fallback: "fallbackResponse (updatePrompts np this) = fallbackResponse this"
  by (simp add: updatePrompts_def)

text \<open>
  Claim C2. When the embedding request and the search are served, \<open>getBotResponse\<close>
  returns the configured fallback text in two situations: the search returned no hit, and
  then the only requests issued are the embedding and the search (no chat request); or the
  chat request, which is served, returned no usable content (no choice, no message, or a
  content that is null or empty). Otherwise it returns the content of the first choice,
  which is not empty. (With hits and a response template that \<open>updatePrompts\<close> has set to
  \<open>undefined\<close>, building the prompt throws a \<open>TypeError\<close> and no chat request is issued.)
\<close>

theorem getBotResponse_fallback:
  assumes "served 2 w"
  shows
  "(let hits = take 3 (ranker w (embedder w userInput) (points w (collectionName this)));
        ctx = join '' '' (map (\<lambda>h. or_default (map_option text_p (hit_payload h)) []) hits);
        w2 = w\<lparr>calls := calls w @
                  [EmbedQuery userInput,
                   Search (collectionName this) (embedder w userInput) 3],
               faults := drop 2 (faults w)\<rparr>
    in (hits = [] \<longrightarrow> getBotResponse this userInput w = (Inr (fallbackResponse this), w2))
     \<and> (hits \<noteq> [] \<and> served 3 w \<longrightarrow>
          (case response (prompts this) of
             None \<Rightarrow> getBotResponse this userInput w = (Inl undefined_replace, w2)
           | Some template \<Rightarrow>
               (let prompt = replace (replace template ''{context}'' ctx) ''{query}'' userInput;
                    answer = first_content (chat w [Message ''user'' prompt]);
                    w3 = w\<lparr>calls := calls w @
                           [EmbedQuery userInput,
                            Search (collectionName this) (embedder w userInput) 3,
                            ChatCompletionsCreate [Message ''user'' prompt] chat_model],
                         faults := drop 3 (faults w)\<rparr>
                in getBotResponse this userInput w =
                     (case answer of
                        Some (c # cs) \<Rightarrow> (Inr (c # cs), w3)
                      | _ \<Rightarrow> (Inr (fallbackResponse this), w3))))))"
proof -
  from assms have s1: "served (Suc (Suc 0)) w" by (simp add: numeral_2_eq_2)
  have s2: "served (Suc 0) (w\<lparr>calls := cs, faults := tl (faults w)\<rparr>)" for cs
    using served_tl [OF s1] .
  have s3: "served (Suc 0) (w\<lparr>calls := cs, faults := tl (tl (faults w))\<rparr>)"
    if "served 3 w" for cs
  proof -
    from that have "served (Suc (Suc (Suc 0))) w" by (simp add: numeral_3_eq_3)
    from served_tl [OF served_tl [OF this]] show ?thesis by simp
  qed
  show ?thesis
    unfolding Let_def
    apply (intro conjI impI)
    subgoal
      by (simp add: getBotResponse_def embedQuery_served [OF s1] search_served [OF s2]
            drop_as_tl)
    subgoal
      by (simp add: getBotResponse_def embedQuery_served [OF s1] search_served [OF s2]
            chat_served [OF s3] drop_as_tl or_default_def Let_def
            split: option.split list.split)
    done
qed

theorem getBotResponse_fallback_witness:
  "served 2 sample_world \<and>
   getBotResponse sample_rag ''When is the midterm?'' sample_world =
     (Inr ''Sorry, I could not find relevant information.'',
      sample_world\<lparr>calls :=
        [EmbedQuery ''When is the midterm?'', Search ''custom-collection'' [1, 0] 3]\<rparr>) \<and>
   served 3 (sample_world\<lparr>points := (\<lambda>name. [sample_point])\<rparr>) \<and>
   getBotResponse sample_rag ''When is the midterm?''
       (sample_world\<lparr>points := (\<lambda>name. [sample_point])\<rparr>) =
     (Inr '' marks'',
      sample_world\<lparr>calls :=
        [EmbedQuery ''When is the midterm?'', Search ''custom-collection'' [1, 0] 3,
         ChatCompletionsCreate
           [Message ''user''
              ''Context: Midterm exams are in October. Question: When is the midterm?'']
           ''llama3-8b-8192''],
        points := (\<lambda>name. [sample_point])\<rparr>)"
proof -
  have s: "served 2 sample_world" by (simp add: served_def sample_world_def)
  have s2: "served 2 (sample_world\<lparr>points := (\<lambda>name. [sample_point])\<rparr>)"
    by (simp add: served_def sample_world_def)
  have s3: "served 3 (sample_world\<lparr>points := (\<lambda>name. [sample_point])\<rparr>)"
    by (simp add: served_def sample_world_def)
  from getBotResponse_fallback [OF s, of "''When is the midterm?''" sample_rag]
  have a: "getBotResponse sample_rag ''When is the midterm?'' sample_world =
     (Inr ''Sorry, I could not find relevant information.'',
      sample_world\<lparr>calls :=
        [EmbedQuery ''When is the midterm?'', Search ''custom-collection'' [1, 0] 3]\<rparr>)"
    by (simp add: Let_def sample_world_def sample_rag_def)
  from getBotResponse_fallback [OF s2, of "''When is the midterm?''" sample_rag] s3
  have b: "getBotResponse sample_rag ''When is the midterm?''
       (sample_world\<lparr>points := (\<lambda>name. [sample_point])\<rparr>) =
     (Inr '' marks'',
      sample_world\<lparr>calls :=
        [EmbedQuery ''When is the midterm?'', Search ''custom-collection'' [1, 0] 3,
         ChatCompletionsCreate
           [Message ''user''
              ''Context: Midterm exams are in October. Question: When is the midterm?'']
           ''llama3-8b-8192''],
        points := (\<lambda>name. [sample_point])\<rparr>)"
    by (simp add: Let_def sample_world_def sample_rag_def sample_point_def replace_def
          or_default_def first_content_def chat_model_def)
  from s s3 a b show ?thesis by blast
qed

section \<open>The classifier\<close>

text \<open>
  Claim C3, as the code has it. When the chat request is served, \<open>classifyQuery\<close> issues
  one request whose only message is the user message with the prompt
  \<open>classification.replace('{query}', query)\<close>, and returns the content of the first choice
  as it is, without trimming; if there is no usable content it returns \<open>general\<close>. For a
  query without a dollar sign and a template whose leftmost placeholder is at position
  \<open>i\<close>, the prompt is the template with the query in place of that placeholder. (On a
  classification template that \<open>updatePrompts\<close> has set to \<open>undefined\<close>, building the prompt
  throws a \<open>TypeError\<close> and no request is issued.)
\<close>

theorem classifyQuery_label:
  assumes "served 1 w"
  shows
  "(case classification (prompts this) of
      None \<Rightarrow> classifyQuery this query w = (Inl undefined_replace, w)
    | Some template \<Rightarrow>
        (let prompt = replace template ''{query}'' query;
             answer = first_content (chat w [Message ''user'' prompt])
         in classifyQuery this query w =
              (case answer of Some (c # cs) \<Rightarrow> Inr (c # cs) | _ \<Rightarrow> Inr ''general'',
               w\<lparr>calls := calls w @
                    [ChatCompletionsCreate [Message ''user'' prompt] chat_model],
                 faults := drop 1 (faults w)\<rparr>)
            \<and> (\<forall>i. indexOf template ''{query}'' = Some i \<and> CHR ''$'' \<notin> set query \<longrightarrow>
                   prompt = take i template @ query
                              @ drop (i + length ''{query}'') template)))"
proof (cases "classification (prompts this)")
  case None
  then show ?thesis by (simp add: classifyQuery_def)
next
  case (Some template)
  from assms have s1: "served (Suc 0) w" by simp
  have a: "classifyQuery this query w =
      (case first_content (chat w [Message ''user'' (replace template ''{query}'' query)]) of
         Some (c # cs) \<Rightarrow> Inr (c # cs) | _ \<Rightarrow> Inr ''general'',
       w\<lparr>calls := calls w @
            [ChatCompletionsCreate [Message ''user'' (replace template ''{query}'' query)]
               chat_model],
         faults := drop 1 (faults w)\<rparr>)"
    by (simp add: classifyQuery_def Some chat_served [OF s1] drop_as_tl or_default_def Let_def
          split: option.split list.split)
  have b: "\<forall>i. indexOf template ''{query}'' = Some i \<and> CHR ''$'' \<notin> set query \<longrightarrow>
      replace template ''{query}'' query =
        take i template @ query @ drop (i + length ''{query}'') template"
    using replace_at [of template "''{query}''" _ query] by blast
  from a b show ?thesis unfolding Some Let_def by simp
qed

theorem classifyQuery_label_witness:
  "served 1 sample_world \<and>
   classification (prompts sample_rag) = Some ''Classify: {query}'' \<and>
   indexOf ''Classify: {query}'' ''{query}'' = Some 10 \<and>
   CHR ''$'' \<notin> set ''When is the midterm?'' \<and>
   classifyQuery sample_rag ''When is the midterm?'' sample_world =
     (Inr '' marks'',
      sample_world\<lparr>calls :=
        [ChatCompletionsCreate [Message ''user'' ''Classify: When is the midterm?'']
           ''llama3-8b-8192'']\<rparr>)"
proof -
  have s: "served 1 sample_world" by (simp add: served_def sample_world_def)
  have t: "classification (prompts sample_rag) = Some ''Classify: {query}''"
    by (simp add: sample_rag_def)
  have i: "indexOf ''Classify: {query}'' ''{query}'' = Some 10"
    by simp
  have d: "CHR ''$'' \<notin> set ''When is the midterm?''" by simp
  from classifyQuery_label [OF s, of sample_rag "''When is the midterm?''"] i d
  have "classifyQuery sample_rag ''When is the midterm?'' sample_world =
         (case first_content (chat sample_world [Message ''user''
                 (take 10 ''Classify: {query}'' @ ''When is the midterm?''
                         @ drop (10 + length ''{query}'') ''Classify: {query}'')]) of
            Some (c # cs) \<Rightarrow> Inr (c # cs) | _ \<Rightarrow> Inr ''general'',
          sample_world\<lparr>calls := calls sample_world @ [ChatCompletionsCreate [Message ''user''
                 (take 10 ''Classify: {query}'' @ ''When is the midterm?''
                         @ drop (10 + length ''{query}'') ''Classify: {query}'')] chat_model],
            faults := drop 1 (faults sample_world)\<rparr>)"
    unfolding t option.case Let_def by metis
  with s t i d show ?thesis
    by (simp add: sample_world_def first_content_def chat_model_def)
qed

text \<open>
  The claim's words ``trimmed of surrounding whitespace'' do not hold: the sample chat
  model answers with a leading blank, and the label keeps it.
\<close>

theorem classifyQuery_not_trimmed:
  "first_content (chat sample_world [Message ''user'' ''Classify: When is the midterm?''])
     = Some '' marks'' \<and>
   fst (classifyQuery sample_rag ''When is the midterm?'' sample_world) = Inr '' marks'' \<and>
   fst (classifyQuery sample_rag ''When is the midterm?'' sample_world)
     \<noteq> Inr (trim '' marks'')"
  by (simp add: classifyQuery_def chat_completions_create_def request_def sample_world_def
        sample_rag_def replace_def first_content_def or_default_def trim_def is_whitespace_def)

section \<open>Placeholder substitution\<close>

text \<open>
  The replacement text of \<open>replace\<close> is not taken literally: the patterns that start with
  a dollar sign are expanded.
\<close>

lemma replace_expands_dollar:
  "replace ''Query: {query}'' ''{query}'' ''$$'' = ''Query: $''"
  "replace ''Query: {query}'' ''{query}'' ''$&'' = ''Query: {query}''"
  by (simp_all add: replace_def)

lemma replace_absent: "indexOf s pat = None \<Longrightarrow> replace s pat rep = s"
  by (simp add: replace_def)

lemma replace_keeps_later:
  assumes i: "indexOf s pat = Some i" and d: "CHR ''$'' \<notin> set rep"
    and k: "i + length pat \<le> k" and p: "prefix pat (drop k s)"
  shows "prefix pat (drop (k + length rep - length pat) (replace s pat rep))"
proof -
  from indexOf_bound [OF i] have li: "length (take i s) = i" by simp
  have "drop (k + length rep - length pat) (take i s @ rep @ drop (i + length pat) s)
        = drop (k - length pat - i) (drop (i + length pat) s)"
    using k li by simp
  also have "\<dots> = drop k s" using k by simp
  finally show ?thesis using p replace_at [OF i d] by simp
qed

lemma replace_context_then_query:
  assumes i: "indexOf tmpl ''{context}'' = Some i"
    and dc: "CHR ''$'' \<notin> set ctx" and dq: "CHR ''$'' \<notin> set q"
    and j: "indexOf (take i tmpl @ ctx) ''{query}'' = Some j" and ij: "i \<le> j"
  shows "replace (replace tmpl ''{context}'' ctx) ''{query}'' q =
           take i tmpl @ take (j - i) ctx @ q @ drop (j - i + length ''{query}'') ctx
             @ drop (i + length ''{context}'') tmpl"
proof -
  let ?a = "take i tmpl" and ?b = "drop (i + length ''{context}'') tmpl"
  from indexOf_bound [OF i] have li: "length ?a = i" by simp
  have r1: "replace tmpl ''{context}'' ctx = (?a @ ctx) @ ?b"
    using replace_at [OF i dc] by simp
  have j': "indexOf ((?a @ ctx) @ ?b) ''{query}'' = Some j"
    using j by (rule indexOf_append)
  from indexOf_bound [OF j] li have jb: "j + length ''{query}'' \<le> i + length ctx" by simp
  have t: "take j ((?a @ ctx) @ ?b) = ?a @ take (j - i) ctx"
    using ij jb li by simp
  have "drop (j + length ''{query}'') ((?a @ ctx) @ ?b)
          = drop (j + length ''{query}'' - i) ctx @ ?b"
    using ij jb li by simp
  moreover have "j + length ''{query}'' - i = j - i + length ''{query}''"
    using ij by simp
  ultimately have dr: "drop (j + length ''{query}'') ((?a @ ctx) @ ?b)
          = drop (j - i + length ''{query}'') ctx @ ?b"
    by simp
  have "replace ((?a @ ctx) @ ?b) ''{query}'' q
          = take j ((?a @ ctx) @ ?b) @ q @ drop (j + length ''{query}'') ((?a @ ctx) @ ?b)"
    using replace_at [OF j' dq] .
  with t dr r1 show ?thesis by simp
qed

text \<open>
  Claim C10, as the code has it. Substitution is \<open>String.prototype.replace\<close> with a
  string pattern. For a value without a dollar sign: when the leftmost occurrence of the
  placeholder in the template is at position \<open>i\<close>, the result is the template with the
  value in place of that occurrence, and every occurrence of the placeholder after it is
  still there, moved by the difference of the lengths. In the response path the context is
  substituted first; when the leftmost \<open>{query}\<close> of the template's text before
  \<open>{context}\<close> followed by the context starts inside the context, that token of the context
  is what the query replaces, and the template after \<open>{context}\<close> is left as it is. The
  prompts so built are the ones sent: the chat request of \<open>classifyQuery\<close> and the one of
  \<open>getBotResponse\<close> carry them as their only message.
\<close>

theorem placeholder_substitution:
  "(\<forall>i. indexOf t ph = Some i \<and> CHR ''$'' \<notin> set v \<longrightarrow>
        replace t ph v = take i t @ v @ drop (i + length ph) t
        \<and> (\<forall>k. i + length ph \<le> k \<and> prefix ph (drop k t) \<longrightarrow>
               prefix ph (drop (k + length v - length ph) (replace t ph v))))
   \<and> (\<forall>i j. indexOf tmpl ''{context}'' = Some i
          \<and> CHR ''$'' \<notin> set ctx \<and> CHR ''$'' \<notin> set q
          \<and> indexOf (take i tmpl @ ctx) ''{query}'' = Some j \<and> i \<le> j \<longrightarrow>
        replace (replace tmpl ''{context}'' ctx) ''{query}'' q =
          take i tmpl @ take (j - i) ctx @ q @ drop (j - i + length ''{query}'') ctx
            @ drop (i + length ''{context}'') tmpl)
   \<and> (\<forall>template. served 1 w \<and> classification (prompts this) = Some template \<longrightarrow>
        calls (snd (classifyQuery this query w)) =
          calls w @
            [ChatCompletionsCreate
               [Message ''user'' (replace template ''{query}'' query)]
               chat_model])
   \<and> (let hits = take 3 (ranker w (embedder w query) (points w (collectionName this)));
           found = join '' ''
                     (map (\<lambda>h. or_default (map_option text_p (hit_payload h)) []) hits)
       in \<forall>template. served 3 w \<and> hits \<noteq> [] \<and> response (prompts this) = Some template \<longrightarrow>
            calls (snd (getBotResponse this query w)) =
              calls w @
                [EmbedQuery query,
                 Search (collectionName this) (embedder w query) 3,
                 ChatCompletionsCreate
                   [Message ''user''
                      (replace (replace template ''{context}'' found)
                         ''{query}'' query)]
                   chat_model])"
proof (intro conjI)
  show "\<forall>i. indexOf t ph = Some i \<and> CHR ''$'' \<notin> set v \<longrightarrow>
        replace t ph v = take i t @ v @ drop (i + length ph) t
        \<and> (\<forall>k. i + length ph \<le> k \<and> prefix ph (drop k t) \<longrightarrow>
               prefix ph (drop (k + length v - length ph) (replace t ph v)))"
    using replace_at replace_keeps_later by blast
next
  show "\<forall>i j. indexOf tmpl ''{context}'' = Some i
          \<and> CHR ''$'' \<notin> set ctx \<and> CHR ''$'' \<notin> set q
          \<and> indexOf (take i tmpl @ ctx) ''{query}'' = Some j \<and> i \<le> j \<longrightarrow>
        replace (replace tmpl ''{context}'' ctx) ''{query}'' q =
          take i tmpl @ take (j - i) ctx @ q @ drop (j - i + length ''{query}'') ctx
            @ drop (i + length ''{context}'') tmpl"
    using replace_context_then_query by blast
next
  show "\<forall>template. served 1 w \<and> classification (prompts this) = Some template \<longrightarrow>
        calls (snd (classifyQuery this query w)) =
          calls w @
            [ChatCompletionsCreate
               [Message ''user'' (replace template ''{query}'' query)]
               chat_model]"
  proof (intro allI impI)
    fix template
    assume a: "served 1 w \<and> classification (prompts this) = Some template"
    then have s1: "served (Suc 0) w" by simp
    from a show "calls (snd (classifyQuery this query w)) =
          calls w @
            [ChatCompletionsCreate
               [Message ''user'' (replace template ''{query}'' query)]
               chat_model]"
      by (simp add: classifyQuery_def chat_served [OF s1] Let_def)
  qed
next
  show "let hits = take 3 (ranker w (embedder w query) (points w (collectionName this)));
           found = join '' ''
                     (map (\<lambda>h. or_default (map_option text_p (hit_payload h)) []) hits)
       in \<forall>template. served 3 w \<and> hits \<noteq> [] \<and> response (prompts this) = Some template \<longrightarrow>
            calls (snd (getBotResponse this query w)) =
              calls w @
                [EmbedQuery query,
                 Search (collectionName this) (embedder w query) 3,
                 ChatCompletionsCreate
                   [Message ''user''
                      (replace (replace template ''{context}'' found)
                         ''{query}'' query)]
                   chat_model]"
    unfolding Let_def
  proof (intro allI impI)
    fix template
    assume a: "served 3 w \<and>
      take 3 (ranker w (embedder w query) (points w (collectionName this))) \<noteq> [] \<and>
      response (prompts this) = Some template"
    then have s1: "served (Suc (Suc (Suc 0))) w" by (simp add: numeral_3_eq_3)
    have s2: "served (Suc (Suc 0)) (w\<lparr>calls := cs, faults := tl (faults w)\<rparr>)" for cs
      using served_tl [OF s1] .
    have s3: "served (Suc 0) (w\<lparr>calls := cs, faults := tl (tl (faults w))\<rparr>)" for cs
      using served_tl [OF served_tl [OF s1]] by simp
    from a show "calls (snd (getBotResponse this query w)) =
              calls w @
                [EmbedQuery query,
                 Search (collectionName this) (embedder w query) 3,
                 ChatCompletionsCreate
                   [Message ''user''
                      (replace (replace template ''{context}''
                         (join '' ''
                           (map (\<lambda>h. or_default (map_option text_p (hit_payload h)) [])
                              (take 3 (ranker w (embedder w query)
                                 (points w (collectionName this)))))))
                         ''{query}'' query)]
                   chat_model]"
      by (simp add: getBotResponse_def embedQuery_served [OF s1] search_served [OF s2]
            chat_served [OF s3] Let_def)
  qed
qed

theorem placeholder_substitution_witness:
  "indexOf ''Classify: {query} ({query})'' ''{query}'' = Some 10 \<and>
   replace ''Classify: {query} ({query})'' ''{query}'' ''hi'' = ''Classify: hi ({query})'' \<and>
   indexOf ''Context: {context} Question: {query}'' ''{context}'' = Some 9 \<and>
   indexOf ''Context: see {query}'' ''{query}'' = Some 13 \<and>
   replace (replace ''Context: {context} Question: {query}'' ''{context}'' ''see {query}'')
      ''{query}'' ''hi'' = ''Context: see hi Question: {query}'' \<and>
   served 1 sample_world \<and>
   calls (snd (classifyQuery sample_rag ''hi'' sample_world)) =
     [ChatCompletionsCreate [Message ''user'' ''Classify: hi''] ''llama3-8b-8192'']"
proof -
  have i1: "indexOf ''Classify: {query} ({query})'' ''{query}'' = Some 10" by simp
  have d: "CHR ''$'' \<notin> set ''hi''" "CHR ''$'' \<notin> set ''see {query}''" by simp_all
  from placeholder_substitution
    [of "''Classify: {query} ({query})''" "''{query}''" "''hi''"] i1 d
  have a: "replace ''Classify: {query} ({query})'' ''{query}'' ''hi'' =
      take 10 ''Classify: {query} ({query})'' @ ''hi''
        @ drop (10 + length ''{query}'') ''Classify: {query} ({query})''"
    by blast
  have i2: "indexOf ''Context: {context} Question: {query}'' ''{context}'' = Some 9" by simp
  have j2: "indexOf (take 9 ''Context: {context} Question: {query}'' @ ''see {query}'')
      ''{query}'' = Some 13" by simp
  have le: "(9::nat) \<le> 13" by simp
  from placeholder_substitution
    [of _ _ _ "''Context: {context} Question: {query}''" "''see {query}''" "''hi''"] i2 j2 d le
  have b: "replace (replace ''Context: {context} Question: {query}'' ''{context}''
        ''see {query}'') ''{query}'' ''hi'' =
      take 9 ''Context: {context} Question: {query}'' @ take (13 - 9) ''see {query}'' @ ''hi''
        @ drop (13 - 9 + length ''{query}'') ''see {query}''
        @ drop (9 + length ''{context}'') ''Context: {context} Question: {query}''"
    by blast
  have s: "served 1 sample_world" by (simp add: served_def sample_world_def)
  have t: "classification (prompts sample_rag) = Some ''Classify: {query}''"
    by (simp add: sample_rag_def)
  from placeholder_substitution [of _ _ _ _ _ _ sample_world sample_rag "''hi''"] s t
  have c: "calls (snd (classifyQuery sample_rag ''hi'' sample_world)) =
          calls sample_world @
            [ChatCompletionsCreate
               [Message ''user'' (replace ''Classify: {query}'' ''{query}'' ''hi'')]
               chat_model]"
    by blast
  have c': "calls (snd (classifyQuery sample_rag ''hi'' sample_world)) =
     [ChatCompletionsCreate [Message ''user'' ''Classify: hi''] ''llama3-8b-8192'']"
    unfolding c by (simp add: sample_world_def replace_def chat_model_def)
  from i1 a i2 j2 b s c' show ?thesis by simp
qed

text \<open>
  The claim's last part does not hold for every template: with \<open>{query}\<close> before
  \<open>{context}\<close> in the response template, the query replaces the template's own
  placeholder, and the \<open>{query}\<close> inside the retrieved context reaches the chat provider
  as it is.
\<close>

theorem context_token_not_replaced:
  "calls (snd (getBotResponse
       (sample_rag\<lparr>prompts := \<lparr> classification = Some ''Classify: {query}'',
                                 response = Some ''Q: {query} C: {context}'' \<rparr>\<rparr>)
       ''hi''
       (sample_world\<lparr>points := (\<lambda>name.
          [sample_point\<lparr>payload := \<lparr> text_p = ''see {query}'', timestamp = 0,
                                      chunkIndex = 0 \<rparr>\<rparr>])\<rparr>))) =
     [EmbedQuery ''hi'', Search ''custom-collection'' [1, 0] 3,
      ChatCompletionsCreate [Message ''user'' ''Q: hi C: see {query}''] ''llama3-8b-8192'']"
  by (simp add: getBotResponse_def embedQuery_def search_def chat_completions_create_def
        request_def sample_world_def sample_rag_def sample_point_def replace_def
        or_default_def chat_model_def)

section \<open>Batched upsert\<close>

lemma batches_of_Nil [simp]: "batches_of n [] = []"
  by (simp add: batches_of.simps)

lemma batches_of_step:
  "0 < n \<Longrightarrow> xs \<noteq> [] \<Longrightarrow> batches_of n xs = take n xs # batches_of n (drop n xs)"
  by (subst batches_of.simps) simp

lemma batches_of_eq_Nil: "0 < n \<Longrightarrow> batches_of n xs = [] \<longleftrightarrow> xs = []"
  by (cases "xs = []") (simp_all add: batches_of_step)

lemma batches_of_concat: "0 < n \<Longrightarrow> concat (batches_of n xs) = xs"
proof (induction "length xs" arbitrary: xs rule: less_induct)
  case less
  show ?case
  proof (cases "xs = []")
    case True
    then show ?thesis by simp
  next
    case False
    with less.prems have "length (drop n xs) < length xs" by simp
    then have "concat (batches_of n (drop n xs)) = drop n xs"
      using less.hyps less.prems by blast
    with False less.prems show ?thesis by (simp add: batches_of_step)
  qed
qed

lemma batches_of_nth:
  "0 < n \<Longrightarrow> k < length (batches_of n xs) \<Longrightarrow>
   batches_of n xs ! k = take n (drop (n * k) xs)"
proof (induction k arbitrary: xs)
  case 0
  then have "xs \<noteq> []" by (auto simp: batches_of_eq_Nil)
  with 0 show ?case by (simp add: batches_of_step)
next
  case (Suc k)
  then have ne: "xs \<noteq> []" by (auto simp: batches_of_eq_Nil)
  with Suc.prems have "k < length (batches_of n (drop n xs))"
    by (simp add: batches_of_step)
  with Suc.IH Suc.prems(1)
  have "batches_of n (drop n xs) ! k = take n (drop (n * k) (drop n xs))" by blast
  with ne Suc.prems(1) show ?case by (simp add: batches_of_step add.commute)
qed

lemma batches_of_nonempty:
  "0 < n \<Longrightarrow> k < length (batches_of n xs) \<Longrightarrow> batches_of n xs ! k \<noteq> []"
proof (induction k arbitrary: xs)
  case 0
  then have "xs \<noteq> []" by (auto simp: batches_of_eq_Nil)
  with 0 show ?case by (simp add: batches_of_step)
next
  case (Suc k)
  then have ne: "xs \<noteq> []" by (auto simp: batches_of_eq_Nil)
  with Suc.prems have "k < length (batches_of n (drop n xs))"
    by (simp add: batches_of_step)
  with Suc.IH Suc.prems(1) have "batches_of n (drop n xs) ! k \<noteq> []" by blast
  with ne Suc.prems(1) show ?case by (simp add: batches_of_step)
qed

lemma batches_of_full:
  "0 < n \<Longrightarrow> Suc k < length (batches_of n xs) \<Longrightarrow> length (batches_of n xs ! k) = n"
proof (induction k arbitrary: xs)
  case 0
  then have ne: "xs \<noteq> []" by (auto simp: batches_of_eq_Nil)
  with 0 have "batches_of n (drop n xs) \<noteq> []" by (auto simp: batches_of_step)
  with 0 have "drop n xs \<noteq> []" by (auto simp: batches_of_eq_Nil)
  then have "n < length xs" by simp
  with ne 0 show ?case by (simp add: batches_of_step)
next
  case (Suc k)
  then have ne: "xs \<noteq> []" by (auto simp: batches_of_eq_Nil)
  with Suc.prems have "Suc k < length (batches_of n (drop n xs))"
    by (simp add: batches_of_step)
  with Suc.IH Suc.prems(1) have "length (batches_of n (drop n xs) ! k) = n" by blast
  with ne Suc.prems(1) show ?case by (simp add: batches_of_step)
qed

lemma batches_of_take_concat:
  "0 < n \<Longrightarrow> j \<le> length (batches_of n xs) \<Longrightarrow>
   concat (take j (batches_of n xs)) = take (n * j) xs"
proof (induction j arbitrary: xs)
  case 0
  then show ?case by simp
next
  case (Suc j)
  then have ne: "xs \<noteq> []" by (auto simp: batches_of_eq_Nil)
  with Suc.prems have "j \<le> length (batches_of n (drop n xs))"
    by (simp add: batches_of_step)
  with Suc.IH Suc.prems(1)
  have "concat (take j (batches_of n (drop n xs))) = take (n * j) (drop n xs)" by blast
  with ne Suc.prems(1) show ?case
    by (simp add: batches_of_step take_add [symmetric] del: take_add)
qed

lemma upsert_served:
  "served (Suc n) w \<Longrightarrow>
   upsert name b wt w =
     (Inr (), w\<lparr>calls := calls w @ [Upsert name b wt], faults := tl (faults w),
                points := (points w)(name := points w name @ b)\<rparr>)"
  by (simp add: upsert_def request_served)

lemma upsert_rejected:
  "faults w = Some e # fs \<Longrightarrow>
   upsert name b wt w = (Inl e, w\<lparr>calls := calls w @ [Upsert name b wt], faults := fs\<rparr>)"
  by (simp add: upsert_def request_rejected)

lemma batchSize_pos: "0 < batchSize"
  by (simp add: batchSize_def)

lemma upsert_loop_done:
  "\<not> i < length pts \<Longrightarrow> upsert_loop this pts i w = (Inr (), w)"
  by (subst upsert_loop.simps) simp

lemma upsert_loop_step:
  "i < length pts \<Longrightarrow>
   upsert_loop this pts i w =
     (case upsert (collectionName this) (take batchSize (drop i pts)) True w of
        (Inl e, w') \<Rightarrow> (Inl e, w')
      | (Inr u, w') \<Rightarrow> upsert_loop this pts (i + batchSize) w')"
  by (subst upsert_loop.simps) (simp add: slice_def)

lemma upsert_loop_served:
  "served (length (batches_of batchSize (drop i pts))) w \<Longrightarrow>
   upsert_loop this pts i w =
     (Inr (),
      w\<lparr>calls := calls w @
           map (\<lambda>b. Upsert (collectionName this) b True) (batches_of batchSize (drop i pts)),
        faults := drop (length (batches_of batchSize (drop i pts))) (faults w),
        points := (points w)(collectionName this := points w (collectionName this) @ drop i pts)\<rparr>)"
proof (induction "length pts - i" arbitrary: i w rule: less_induct)
  case less
  show ?case
  proof (cases "i < length pts")
    case False
    then show ?thesis by (simp add: upsert_loop_done)
  next
    case True
    then have ne: "drop i pts \<noteq> []" by simp
    let ?b = "take batchSize (drop i pts)"
    let ?rest = "batches_of batchSize (drop (i + batchSize) pts)"
    let ?w' = "w\<lparr>calls := calls w @ [Upsert (collectionName this) ?b True],
                  faults := tl (faults w),
                  points := (points w)(collectionName this := points w (collectionName this) @ ?b)\<rparr>"
    have bs: "batches_of batchSize (drop i pts) = ?b # ?rest"
      using batches_of_step [OF batchSize_pos ne] by (simp add: add.commute)
    with less.prems have s: "served (Suc (length ?rest)) w" by simp
    have s': "served (length ?rest) ?w'"
      using served_tl [OF s, of "calls w @ [Upsert (collectionName this) ?b True]"]
      by (simp add: served_def)
    have m: "length pts - (i + batchSize) < length pts - i"
      using True batchSize_pos by simp
    have td: "?b @ drop (batchSize + i) pts = drop i pts"
      using append_take_drop_id [of batchSize "drop i pts"] by simp
    have "upsert_loop this pts i w = upsert_loop this pts (i + batchSize) ?w'"
      by (simp add: upsert_loop_step [OF True] upsert_served [OF s])
    also have "\<dots> =
     (Inr (),
      ?w'\<lparr>calls := calls ?w' @ map (\<lambda>b. Upsert (collectionName this) b True) ?rest,
        faults := drop (length ?rest) (faults ?w'),
        points := (points ?w')(collectionName this :=
                     points ?w' (collectionName this) @ drop (i + batchSize) pts)\<rparr>)"
      using less.hyps [OF m s'] .
    finally show ?thesis
      by (simp add: bs td drop_Suc [symmetric] drop_as_tl [symmetric] add.commute
            del: drop_Suc)
  qed
qed

lemma upsert_loop_rejected:
  "j < length (batches_of batchSize (drop i pts)) \<Longrightarrow> served j w \<Longrightarrow>
   j < length (faults w) \<Longrightarrow> faults w ! j = Some e \<Longrightarrow>
   upsert_loop this pts i w =
     (Inl e,
      w\<lparr>calls := calls w @
           map (\<lambda>b. Upsert (collectionName this) b True)
             (take (Suc j) (batches_of batchSize (drop i pts))),
        faults := drop (Suc j) (faults w),
        points := (points w)(collectionName this :=
                     points w (collectionName this)
                       @ concat (take j (batches_of batchSize (drop i pts))))\<rparr>)"
proof (induction j arbitrary: i w)
  case 0
  then have ne: "drop i pts \<noteq> []" by (auto simp: batches_of_eq_Nil batchSize_pos)
  then have lt: "i < length pts" by simp
  from 0 have f: "faults w = Some e # tl (faults w)"
    by (cases "faults w") simp_all
  have bs: "batches_of batchSize (drop i pts) =
      take batchSize (drop i pts) # batches_of batchSize (drop (i + batchSize) pts)"
    using batches_of_step [OF batchSize_pos ne] by (simp add: add.commute)
  show ?case
    by (simp add: upsert_loop_step [OF lt] upsert_rejected [OF f] bs drop_as_tl)
next
  case (Suc j)
  then have ne: "drop i pts \<noteq> []" by (auto simp: batches_of_eq_Nil batchSize_pos)
  then have lt: "i < length pts" by simp
  let ?b = "take batchSize (drop i pts)"
  let ?rest = "batches_of batchSize (drop (i + batchSize) pts)"
  let ?w' = "w\<lparr>calls := calls w @ [Upsert (collectionName this) ?b True],
                faults := tl (faults w),
                points := (points w)(collectionName this := points w (collectionName this) @ ?b)\<rparr>"
  have bs: "batches_of batchSize (drop i pts) = ?b # ?rest"
    using batches_of_step [OF batchSize_pos ne] by (simp add: add.commute)
  from Suc.prems(2) have s: "served (Suc j) w" .
  have s': "served j ?w'"
    using served_tl [OF s, of "calls w @ [Upsert (collectionName this) ?b True]"]
    by (simp add: served_def)
  from Suc.prems(1) bs have j: "j < length ?rest" by simp
  from Suc.prems(3) have l: "j < length (faults ?w')" by simp
  from Suc.prems(3,4) have n: "faults ?w' ! j = Some e" by (simp add: nth_tl)
  have "upsert_loop this pts i w = upsert_loop this pts (i + batchSize) ?w'"
    by (simp add: upsert_loop_step [OF lt] upsert_served [OF s])
  also have "\<dots> =
     (Inl e,
      ?w'\<lparr>calls := calls ?w' @
           map (\<lambda>b. Upsert (collectionName this) b True) (take (Suc j) ?rest),
        faults := drop (Suc j) (faults ?w'),
        points := (points ?w')(collectionName this :=
                     points ?w' (collectionName this) @ concat (take j ?rest))\<rparr>)"
    using Suc.IH [OF j s' l n] .
  finally show ?case
    by (simp add: bs drop_Suc [symmetric] drop_as_tl [symmetric] fun_upd_def del: drop_Suc
          cong: if_cong)
qed

text \<open>
  Claim C4. The batches of the point list are consecutive slices of ten points, none of
  them empty, all but the last of exactly ten, and together they are the list. The loop
  issues one upsert per batch, in order, each with \<open>wait: true\<close>, and the next one only
  after the acknowledgment of the one before. When all are acknowledged the call succeeds
  and the store holds every point. When the \<open>j\<close>-th upsert is rejected and those before it
  were acknowledged, the call fails with that error, the requests issued are the batches 0
  to \<open>j\<close>, each once, and the store has gained exactly the first \<open>10 * j\<close> points: nothing
  is sent again and nothing is taken back.
\<close>

theorem upsert_batches:
  "(let bs = batches_of batchSize pts; name = collectionName this
    in batchSize = 10 \<and> concat bs = pts
     \<and> (\<forall>k. k < length bs \<longrightarrow>
            bs ! k = slice pts (10 * k) (10 * k + 10) \<and> bs ! k \<noteq> []
            \<and> (Suc k < length bs \<longrightarrow> length (bs ! k) = 10))
     \<and> (served (length bs) w \<longrightarrow>
          upsert_loop this pts 0 w =
            (Inr (),
             w\<lparr>calls := calls w @ map (\<lambda>b. Upsert name b True) bs,
               faults := drop (length bs) (faults w),
               points := (points w)(name := points w name @ pts)\<rparr>))
     \<and> (\<forall>j e. j < length bs \<and> served j w \<and> j < length (faults w)
            \<and> faults w ! j = Some e \<longrightarrow>
          upsert_loop this pts 0 w =
            (Inl e,
             w\<lparr>calls := calls w @ map (\<lambda>b. Upsert name b True) (take (Suc j) bs),
               faults := drop (Suc j) (faults w),
               points := (points w)(name := points w name @ take (10 * j) pts)\<rparr>)))"
proof -
  have p: "(0::nat) < 10" by simp
  have a: "concat (batches_of 10 pts) = pts"
    using batches_of_concat [OF p] .
  have b: "\<forall>k. k < length (batches_of 10 pts) \<longrightarrow>
            batches_of 10 pts ! k = slice pts (10 * k) (10 * k + 10)
            \<and> batches_of 10 pts ! k \<noteq> []
            \<and> (Suc k < length (batches_of 10 pts) \<longrightarrow> length (batches_of 10 pts ! k) = 10)"
  proof (intro allI impI conjI)
    fix k
    assume k: "k < length (batches_of 10 pts)"
    show "batches_of 10 pts ! k = slice pts (10 * k) (10 * k + 10)"
      using batches_of_nth [OF p k] by (simp add: slice_def)
    show "batches_of 10 pts ! k \<noteq> []"
      using batches_of_nonempty [OF p k] .
  next
    fix k
    assume "Suc k < length (batches_of 10 pts)"
    then show "length (batches_of 10 pts ! k) = 10"
      by (rule batches_of_full [OF p])
  qed
  have c: "served (length (batches_of 10 pts)) w \<longrightarrow>
          upsert_loop this pts 0 w =
            (Inr (),
             w\<lparr>calls := calls w @
                  map (\<lambda>b. Upsert (collectionName this) b True) (batches_of 10 pts),
               faults := drop (length (batches_of 10 pts)) (faults w),
               points := (points w)(collectionName this :=
                           points w (collectionName this) @ pts)\<rparr>)"
    using upsert_loop_served [of 0 pts w this] by (simp add: batchSize_def)
  have d: "\<forall>j e. j < length (batches_of 10 pts) \<and> served j w \<and> j < length (faults w)
            \<and> faults w ! j = Some e \<longrightarrow>
          upsert_loop this pts 0 w =
            (Inl e,
             w\<lparr>calls := calls w @
                  map (\<lambda>b. Upsert (collectionName this) b True)
                    (take (Suc j) (batches_of 10 pts)),
               faults := drop (Suc j) (faults w),
               points := (points w)(collectionName this :=
                           points w (collectionName this) @ take (10 * j) pts)\<rparr>)"
  proof (intro allI impI)
    fix j e
    assume h: "j < length (batches_of 10 pts) \<and> served j w \<and> j < length (faults w)
            \<and> faults w ! j = Some e"
    then have "concat (take j (batches_of 10 pts)) = take (10 * j) pts"
      using batches_of_take_concat [OF p, of j pts] by simp
    with h upsert_loop_rejected [of j 0 pts w e this]
    show "upsert_loop this pts 0 w =
            (Inl e,
             w\<lparr>calls := calls w @
                  map (\<lambda>b. Upsert (collectionName this) b True)
                    (take (Suc j) (batches_of 10 pts)),
               faults := drop (Suc j) (faults w),
               points := (points w)(collectionName this :=
                           points w (collectionName this) @ take (10 * j) pts)\<rparr>)"
      by (simp add: batchSize_def)
  qed
  from a b c d show ?thesis
    unfolding Let_def batchSize_def by blast
qed

theorem upsert_batches_witness:
  "map length (batches_of batchSize sample_points) = [10, 2] \<and>
   served 1 (sample_world\<lparr>faults := [None, Some (JsError ''Service Unavailable'' (Some 503))]\<rparr>) \<and>
   upsert_loop sample_rag sample_points 0
       (sample_world\<lparr>faults := [None, Some (JsError ''Service Unavailable'' (Some 503))]\<rparr>) =
     (Inl (JsError ''Service Unavailable'' (Some 503)),
      sample_world\<lparr>calls :=
          [Upsert ''custom-collection'' (take 10 sample_points) True,
           Upsert ''custom-collection'' (drop 10 sample_points) True],
        points := (\<lambda>name. [])(''custom-collection'' := take 10 sample_points)\<rparr>) \<and>
   served 2 sample_world \<and>
   upsert_loop sample_rag sample_points 0 sample_world =
     (Inr (),
      sample_world\<lparr>calls :=
          [Upsert ''custom-collection'' (take 10 sample_points) True,
           Upsert ''custom-collection'' (drop 10 sample_points) True],
        points := (\<lambda>name. [])(''custom-collection'' := sample_points)\<rparr>)"
proof -
  let ?e = "JsError ''Service Unavailable'' (Some 503)"
  let ?w = "sample_world\<lparr>faults := [None, Some ?e]\<rparr>"
  have len: "length sample_points = 12" by (simp add: sample_points_def)
  have ne: "sample_points \<noteq> []" "drop 10 sample_points \<noteq> []"
    using len by auto
  have bs: "batches_of batchSize sample_points = [take 10 sample_points, drop 10 sample_points]"
    using batches_of_step [OF batchSize_pos ne(1)] batches_of_step [OF batchSize_pos ne(2)] len
    by (simp add: batchSize_def)
  have l: "map length (batches_of batchSize sample_points) = [10, 2]"
    using len by (simp add: bs)
  have s1: "served 1 ?w" by (simp add: served_def)
  have s2: "served 2 sample_world" by (simp add: served_def sample_world_def)
  have h: "1 < length (batches_of batchSize sample_points) \<and> served 1 ?w
      \<and> 1 < length (faults ?w) \<and> faults ?w ! 1 = Some ?e"
    using s1 by (simp add: bs)
  from upsert_batches [of sample_points sample_rag ?w] h
  have a: "upsert_loop sample_rag sample_points 0 ?w =
            (Inl ?e,
             ?w\<lparr>calls := calls ?w @ map (\<lambda>b. Upsert (collectionName sample_rag) b True)
                   (take (Suc 1) (batches_of batchSize sample_points)),
               faults := drop (Suc 1) (faults ?w),
               points := (points ?w)(collectionName sample_rag :=
                   points ?w (collectionName sample_rag) @ take (10 * 1) sample_points)\<rparr>)"
    unfolding Let_def by blast
  have h2: "served (length (batches_of batchSize sample_points)) sample_world"
    by (simp add: bs served_def sample_world_def)
  from upsert_batches [of sample_points sample_rag sample_world] h2
  have b: "upsert_loop sample_rag sample_points 0 sample_world =
            (Inr (),
             sample_world\<lparr>calls := calls sample_world @
                 map (\<lambda>b. Upsert (collectionName sample_rag) b True)
                   (batches_of batchSize sample_points),
               faults := drop (length (batches_of batchSize sample_points)) (faults sample_world),
               points := (points sample_world)(collectionName sample_rag :=
                   points sample_world (collectionName sample_rag) @ sample_points)\<rparr>)"
    unfolding Let_def by blast
  have a': "upsert_loop sample_rag sample_points 0 ?w =
     (Inl ?e,
      sample_world\<lparr>calls :=
          [Upsert ''custom-collection'' (take 10 sample_points) True,
           Upsert ''custom-collection'' (drop 10 sample_points) True],
        points := (\<lambda>name. [])(''custom-collection'' := take 10 sample_points)\<rparr>)"
    unfolding a bs by (simp add: sample_world_def sample_rag_def)
  have b': "upsert_loop sample_rag sample_points 0 sample_world =
     (Inr (),
      sample_world\<lparr>calls :=
          [Upsert ''custom-collection'' (take 10 sample_points) True,
           Upsert ''custom-collection'' (drop 10 sample_points) True],
        points := (\<lambda>name. [])(''custom-collection'' := sample_points)\<rparr>)"
    unfolding b bs by (simp add: sample_world_def sample_rag_def)
  from l s1 a' s2 b' show ?thesis by blast
qed

section \<open>Point identifiers\<close>

lemma promise_all_length: "promise_all rs = Inr vs \<Longrightarrow> length vs = length rs"
proof (induction rs arbitrary: vs)
  case Nil
  then show ?case by simp
next
  case (Cons r rs)
  then show ?case by (cases r) (auto split: sum.splits)
qed

lemma embed_each_length: "length (fst (embed_each ts w)) = length ts"
  by (induction ts arbitrary: w) (simp_all add: split_beta Let_def)

text \<open>The points of chunks \<open>i\<close>, \<open>i + 1\<close>, ... in closed form.\<close>

lemma make_points_closed:
  "i + length ts \<le> length embeds \<Longrightarrow>
   make_points ts embeds i w =
     (Inr (map (\<lambda>k. \<lparr> point_id = clock w (reads w + 2 * k) + (i + k),
                       vector = embeds ! (i + k),
                       payload = \<lparr> text_p = trim (ts ! k),
                                   timestamp = clock w (reads w + 2 * k + 1),
                                   chunkIndex = i + k \<rparr> \<rparr>)
            [0..<length ts]),
      w\<lparr>reads := reads w + 2 * length ts\<rparr>)"
proof (induction ts arbitrary: i w)
  case Nil
  then show ?case by simp
next
  case (Cons t ts)
  let ?w2 = "w\<lparr>reads := Suc (Suc (reads w))\<rparr>"
  from Cons.prems have lt: "i < length embeds" and le: "Suc i + length ts \<le> length embeds"
    by simp_all
  have up: "[0..<length (t # ts)] = 0 # map Suc [0..<length ts]"
    by (simp add: upt_conv_Cons map_Suc_upt del: upt_Suc)
  show ?case
    unfolding up
    using lt by (simp add: Date_now_def Cons.IH [OF le] comp_def del: upt_Suc)
qed

text \<open>
  Claim C5. While the clock does not go back between the readings of one indexing call,
  the points built for the chunks \<open>0, 1, ...\<close> carry these ordinals as \<open>chunkIndex\<close> and
  identifiers that increase strictly with the ordinal, hence are pairwise distinct. The
  callback is total on the lists \<open>createVectorStore\<close> passes to it (one embedding per
  chunk).
\<close>

theorem point_ids_increasing:
  assumes "\<forall>a b. reads w \<le> a \<and> a \<le> b \<and> b < reads w + 2 * length texts
             \<longrightarrow> clock w a \<le> clock w b"
    and "length texts \<le> length embeds"
  shows "\<exists>pts w'. make_points texts embeds 0 w = (Inr pts, w')
           \<and> map (\<lambda>p. chunkIndex (payload p)) pts = [0..<length texts]
           \<and> sorted_wrt (<) (map point_id pts)
           \<and> distinct (map point_id pts)"
proof -
  let ?ident = "\<lambda>k. clock w (reads w + 2 * k) + k"
  let ?pts = "map (\<lambda>k. \<lparr> point_id = clock w (reads w + 2 * k) + (0 + k),
                       vector = embeds ! (0 + k),
                       payload = \<lparr> text_p = trim (texts ! k),
                                   timestamp = clock w (reads w + 2 * k + 1),
                                   chunkIndex = 0 + k \<rparr> \<rparr>)
            [0..<length texts]"
  from assms(2) have "0 + length texts \<le> length embeds" by simp
  from make_points_closed [OF this]
  have run: "make_points texts embeds 0 w = (Inr ?pts, w\<lparr>reads := reads w + 2 * length texts\<rparr>)" .
  have ids: "map point_id ?pts = map ?ident [0..<length texts]"
    by (simp add: comp_def)
  have idx: "map (\<lambda>p. chunkIndex (payload p)) ?pts = [0..<length texts]"
    by (simp add: comp_def map_idI)
  have step: "?ident k < ?ident l" if "k < l" "l < length texts" for k l
  proof -
    from that assms(1) have "clock w (reads w + 2 * k) \<le> clock w (reads w + 2 * l)"
      by simp
    with that show ?thesis by simp
  qed
  have "sorted_wrt (\<lambda>k l. ?ident k < ?ident l) [0..<length texts]"
    by (rule sorted_wrt_mono_rel [of _ "(<)"]) (simp_all add: step)
  then have inc: "sorted_wrt (<) (map point_id ?pts)"
    unfolding ids by (simp add: sorted_wrt_map)
  then have "distinct (map point_id ?pts)"
    using strict_sorted_iff by blast
  with run idx inc show ?thesis by blast
qed

theorem point_ids_increasing_witness:
  "length [''Midterm exams are in October. '', ''Sports day is in November.'']
      \<le> length [[1, 0], [1, 0::real]] \<and>
   (\<exists>pts w'. make_points [''Midterm exams are in October. '', ''Sports day is in November.'']
        [[1, 0], [1, 0]] 0 sample_world = (Inr pts, w')
      \<and> map point_id pts = [1700000000000, 1700000000001]
      \<and> map (\<lambda>p. chunkIndex (payload p)) pts = [0..<2]
      \<and> sorted_wrt (<) (map point_id pts) \<and> distinct (map point_id pts))"
proof -
  let ?texts = "[''Midterm exams are in October. '', ''Sports day is in November.'']"
  let ?embeds = "[[1, 0], [1, 0::real]]"
  have c: "\<forall>a b. reads sample_world \<le> a \<and> a \<le> b
      \<and> b < reads sample_world + 2 * length ?texts
             \<longrightarrow> clock sample_world a \<le> clock sample_world b"
    by (simp add: sample_world_def)
  have l: "length ?texts \<le> length ?embeds" by simp
  from point_ids_increasing [OF c l]
  obtain pts w' where r: "make_points ?texts ?embeds 0 sample_world = (Inr pts, w')"
    and p: "map (\<lambda>p. chunkIndex (payload p)) pts = [0..<length ?texts]"
      "sorted_wrt (<) (map point_id pts)" "distinct (map point_id pts)"
    by blast
  have "fst (make_points ?texts ?embeds 0 sample_world) =
      Inr [\<lparr> point_id = 1700000000000, vector = [1, 0],
              payload = \<lparr> text_p = ''Midterm exams are in October.'',
                          timestamp = 1700000000000, chunkIndex = 0 \<rparr> \<rparr>,
           \<lparr> point_id = 1700000000001, vector = [1, 0],
              payload = \<lparr> text_p = ''Sports day is in November.'',
                          timestamp = 1700000000000, chunkIndex = 1 \<rparr> \<rparr>]"
    by (simp add: Date_now_def sample_world_def trim_def is_whitespace_def)
  with r have "map point_id pts = [1700000000000, 1700000000001]" by auto
  with r p l show ?thesis by (simp add: numeral_2_eq_2 del: upt_Suc) 
qed

section \<open>The default response template and the whole pipeline\<close>

lemma indexOf_skip:
  "pat \<noteq> [] \<Longrightarrow> hd pat \<notin> set a \<Longrightarrow>
   indexOf (a @ s) pat = map_option (\<lambda>k. length a + k) (indexOf s pat)"
proof (induction a)
  case Nil
  then show ?case by (simp add: option.map_ident)
next
  case (Cons c a)
  from Cons.prems obtain p ps where p: "pat = p # ps" by (cases pat) auto
  with Cons.prems have "p \<noteq> c" by auto
  with p have "\<not> prefix pat (c # a @ s)" by simp
  moreover from Cons have "indexOf (a @ s) pat = map_option (\<lambda>k. length a + k) (indexOf s pat)"
    by simp
  ultimately show ?case by (simp add: option.map_comp comp_def)
qed

text \<open>
  In the default response template nothing before \<open>{context}\<close> holds an opening brace, so
  the leftmost \<open>{query}\<close> of a retrieved context is the token the query replaces.
\<close>

lemma default_response_context_token:
  assumes k: "indexOf ctx ''{query}'' = Some k"
    and dc: "CHR ''$'' \<notin> set ctx" and dq: "CHR ''$'' \<notin> set q"
  shows "replace (replace default_response ''{context}'' ctx) ''{query}'' q =
           take 53 default_response @ take k ctx @ q @ drop (k + length ''{query}'') ctx
             @ drop (53 + length ''{context}'') default_response"
proof -
  have i: "indexOf default_response ''{context}'' = Some 53"
    by (simp add: default_response_def)
  have "CHR ''{'' \<notin> set (take 53 default_response)"
    by (simp add: default_response_def)
  then have "indexOf (take 53 default_response @ ctx) ''{query}''
      = map_option (\<lambda>k. length (take 53 default_response) + k) (indexOf ctx ''{query}'')"
    by (intro indexOf_skip) simp_all
  moreover have "length (take 53 default_response) = 53"
    by (simp add: default_response_def)
  ultimately have j: "indexOf (take 53 default_response @ ctx) ''{query}'' = Some (53 + k)"
    using k by simp
  have le: "53 \<le> 53 + k" by simp
  from replace_context_then_query [OF i dc dq j le] show ?thesis by simp
qed

text \<open>
  \<open>processQuery\<close> classifies before it indexes: on a source text of white space only the
  chat request of the classifier has been issued when the indexing step throws, and no
  other request follows.
\<close>

lemma processQuery_empty_input:
  assumes "served 1 w" and "\<forall>c \<in> set txt. is_whitespace c"
    and "classification (prompts this) = Some template"
  shows "processQuery this txt query w =
           (Inl (JsError ''No text provided for vector store creation'' None),
            w\<lparr>calls := calls w @
                 [ChatCompletionsCreate
                    [Message ''user'' (replace template ''{query}'' query)]
                    chat_model],
              faults := drop 1 (faults w)\<rparr>)"
proof -
  from assms(1) have s1: "served (Suc 0) w" by simp
  from assms(2) have t: "trim txt = []" by (simp add: trim_empty_iff)
  show ?thesis
    by (simp add: processQuery_def classifyQuery_def assms(3) chat_served [OF s1] Let_def
          createVectorStore_def t drop_as_tl)
qed

end
